theory Spec2Isabelle
  imports Complex_Main "HOL-Library.Sublist"
begin

section \<open>Item service: validation schemas, store and request handlers\<close>

text \<open>
  A shallow embedding of the item service: \<^verbatim>\<open>schemas.py\<close> (the pydantic
  schemas \<^verbatim>\<open>ItemCreate\<close> and \<^verbatim>\<open>ItemUpdate\<close>), \<^verbatim>\<open>models.py\<close> (the
  \<^verbatim>\<open>items\<close> table), \<^verbatim>\<open>database.py\<close> (the session dependency
  \<^verbatim>\<open>get_db\<close>) and \<^verbatim>\<open>main.py\<close> (the five request handlers).

  Exceptions are values of the type \<open>exn\<close>; a function that may raise returns
  \<open>exn + 'a\<close>, with \<open>Inl\<close> for the exception. The database is explicit state.
\<close>

subsection \<open>Exceptions\<close>

text \<open>
  \<open>HTTPException status_code detail\<close> is FastAPI's; \<open>OperationalError\<close> and
  \<open>IntegrityError\<close> are SQLAlchemy's and carry the text that \<^verbatim>\<open>str(e)\<close> gives;
  \<open>OtherException\<close> is any other exception, with its \<^verbatim>\<open>str(e)\<close>.
  \<open>InvalidOperation\<close> is \<^verbatim>\<open>decimal.InvalidOperation\<close>, an
  \<^verbatim>\<open>ArithmeticError\<close>. \<open>ValidationError fields\<close> is pydantic's rejection of a
  request body, with the fields that failed.
\<close>

datatype exn =
    HTTPException nat string
  | OperationalError string
  | IntegrityError string
  | OtherException string
  | InvalidOperation
  | ValidationError "string list"

subsection \<open>Strings\<close>

text \<open>
  A string is a list of characters, one element per character. \<open>lower_char\<close>
  folds the ASCII capitals, which is what \<^verbatim>\<open>str.lower\<close> does on ASCII text
  and what SQLite's \<^verbatim>\<open>LIKE\<close> does on any text.
\<close>

definition lower_char :: "char \<Rightarrow> char" where
  "lower_char c =
     (case map_of (zip ''ABCDEFGHIJKLMNOPQRSTUVWXYZ'' ''abcdefghijklmnopqrstuvwxyz'') c of
        Some l \<Rightarrow> l
      | None \<Rightarrow> c)"

definition lower :: "string \<Rightarrow> string" where
  "lower s = map lower_char s"

text \<open>Python's \<^verbatim>\<open>needle in haystack\<close> on strings.\<close>

fun str_contains :: "string \<Rightarrow> string \<Rightarrow> bool" where
  "str_contains needle [] = (needle = [])"
| "str_contains needle (c # cs) = (prefix needle (c # cs) \<or> str_contains needle cs)"

text \<open>Python's \<^verbatim>\<open>str(n)\<close> for a natural number.\<close>

definition digit_char :: "nat \<Rightarrow> char" where
  "digit_char d = ''0123456789'' ! d"

fun str_nat :: "nat \<Rightarrow> string" where
  "str_nat n = (if n < 10 then [digit_char n] else str_nat (n div 10) @ [digit_char (n mod 10)])"

text \<open>
  \<^verbatim>\<open>str(e)\<close>: Starlette prints an \<^verbatim>\<open>HTTPException\<close> as
  \<^verbatim>\<open>f"{status_code}: {detail}"\<close>.
\<close>

fun str_exn :: "exn \<Rightarrow> string" where
  "str_exn (HTTPException code detail) = str_nat code @ '': '' @ detail"
| "str_exn (OperationalError m) = m"
| "str_exn (IntegrityError m) = m"
| "str_exn (OtherException m) = m"
| "str_exn InvalidOperation = ''InvalidOperation''"
| "str_exn (ValidationError fs) = ''ValidationError''"

subsection \<open>Decimal\<close>

text \<open>
  A finite \<^verbatim>\<open>decimal.Decimal\<close>: sign, coefficient and exponent, the value being
  \<open>(-1)^sign * coefficient * 10^exponent\<close>. NaN and the infinities are left out:
  pydantic rejects them for a \<^verbatim>\<open>Decimal\<close> field.
\<close>

record decimal =
  dsign :: bool
  dcoeff :: nat
  dexp :: int

definition dec_signed :: "decimal \<Rightarrow> int" where
  "dec_signed d = (if dsign d then - int (dcoeff d) else int (dcoeff d))"

text \<open>The number that a decimal stands for.\<close>

definition dec_value :: "decimal \<Rightarrow> rat" where
  "dec_value d = of_int (dec_signed d) * 10 powi (dexp d)"

text \<open>\<^verbatim>\<open>v < 0\<close>: a negative zero is not below zero.\<close>

definition dec_is_neg :: "decimal \<Rightarrow> bool" where
  "dec_is_neg d = (dsign d \<and> dcoeff d \<noteq> 0)"

text \<open>
  The value in units of \<open>10^m\<close>, for an \<open>m\<close> that is not above the exponent, and
  \<^verbatim>\<open>a <= b\<close>, exactly: both values are taken in units of the smaller exponent.
\<close>

definition dec_scaled :: "decimal \<Rightarrow> int \<Rightarrow> int" where
  "dec_scaled d m = dec_signed d * 10 ^ nat (dexp d - m)"

definition dec_le :: "decimal \<Rightarrow> decimal \<Rightarrow> bool" where
  "dec_le a b = (let m = min (dexp a) (dexp b) in dec_scaled a m \<le> dec_scaled b m)"

text \<open>
  Dividing a coefficient by \<open>10^k\<close> under \<^verbatim>\<open>ROUND_HALF_EVEN\<close>, the rounding of
  the default context: to the nearest, a tie to the even neighbour.
\<close>

definition round_half_even :: "nat \<Rightarrow> nat \<Rightarrow> nat" where
  "round_half_even c k =
     (let q = c div 10 ^ k; r = c mod 10 ^ k
      in if 2 * r > 10 ^ k \<or> (2 * r = 10 ^ k \<and> odd q) then q + 1 else q)"

text \<open>
  \<^verbatim>\<open>v.quantize(Decimal('0.01'))\<close> in the default context (precision 28,
  \<^verbatim>\<open>ROUND_HALF_EVEN\<close>): the result has exponent \<open>-2\<close>; a zero keeps its sign; a
  result whose coefficient would need more than 28 digits signals
  \<^verbatim>\<open>InvalidOperation\<close>, which the default context traps and raises.
\<close>

definition context_prec :: nat where
  "context_prec = 28"

definition quantize :: "decimal \<Rightarrow> exn + decimal" where
  "quantize d =
     (if dcoeff d = 0 then Inr \<lparr>dsign = dsign d, dcoeff = 0, dexp = -2\<rparr>
      else
        let c = (if - 2 \<le> dexp d then dcoeff d * 10 ^ nat (dexp d + 2)
                 else round_half_even (dcoeff d) (nat (- 2 - dexp d)))
        in if 10 ^ context_prec \<le> c then Inl InvalidOperation
           else Inr \<lparr>dsign = dsign d, dcoeff = c, dexp = -2\<rparr>)"

subsection \<open>Floats\<close>

text \<open>
  A Python \<^verbatim>\<open>float\<close> is an IEEE 754 binary64 number. The model holds a float as
  the rational number it is, and holds the two infinities as \<open>2 ^ 1024\<close> and
  \<open>- (2 ^ 1024)\<close>, which lie beyond every finite float, so that the order of the
  floats is the order of the rationals. A negative zero is held as zero, to which
  it is equal. NaN does not arise from a finite decimal.

  \<open>bitlen n\<close> is the number of binary digits of \<open>n\<close>, and
  \<open>round_half_even_div a b\<close> the integer nearest to \<open>a / b\<close>, a tie going to
  the even one.
\<close>

fun bitlen :: "nat \<Rightarrow> nat" where
  "bitlen n = (if n = 0 then 0 else Suc (bitlen (n div 2)))"

declare bitlen.simps [simp del]

definition round_half_even_div :: "nat \<Rightarrow> nat \<Rightarrow> nat" where
  "round_half_even_div a b =
     (let q = a div b; r = a mod b
      in if b < 2 * r \<or> (2 * r = b \<and> odd q) then q + 1 else q)"

text \<open>
  The float nearest to \<open>num / den\<close>, a tie going to the even mantissa. With
  \<open>2 ^ ex \<le> num / den < 2 ^ (ex + 1)\<close> the floats around \<open>num / den\<close> are the
  multiples of \<open>2 ^ (ex - 52)\<close>, and below \<open>2 ^ (- 1022)\<close> the multiples of
  \<open>2 ^ (- 1074)\<close>; a result of \<open>2 ^ 1024\<close> or more is an infinity.
\<close>

definition ulp_exponent :: "nat \<Rightarrow> nat \<Rightarrow> int" where
  "ulp_exponent num den =
     (let k = int (bitlen num) - int (bitlen den);
          ex = (if den * 2 ^ nat k \<le> num * 2 ^ nat (- k) then k else k - 1)
      in max ex (- 1022) - 52)"

definition mantissa :: "nat \<Rightarrow> nat \<Rightarrow> nat" where
  "mantissa num den =
     (let sh = ulp_exponent num den
      in round_half_even_div (num * 2 ^ nat (- sh)) (den * 2 ^ nat sh))"

definition binary64 :: "nat \<Rightarrow> nat \<Rightarrow> rat" where
  "binary64 num den =
     (let v = of_nat (mantissa num den) * 2 powi (ulp_exponent num den)
      in if 2 ^ 1024 \<le> v then 2 ^ 1024 else v)"

text \<open>
  \<^verbatim>\<open>float(d)\<close> for a decimal \<open>d\<close>, and \<^verbatim>\<open>float(str(d))\<close>, which is the same
  float: the decimal is rounded once, to the nearest float.
\<close>

definition to_float :: "decimal \<Rightarrow> rat" where
  "to_float d =
     (let m = (if 0 \<le> dexp d then binary64 (dcoeff d * 10 ^ nat (dexp d)) 1
               else binary64 (dcoeff d) (10 ^ nat (- dexp d)))
      in if dsign d then - m else m)"

text \<open>
  \<^verbatim>\<open>Decimal("%.2f" % value)\<close> for a float \<^verbatim>\<open>value\<close>: the float is printed with
  two places after the point, rounded to the nearest, a tie going to the even
  neighbour, and the text is read as a decimal.
\<close>

definition round_half_even_rat :: "rat \<Rightarrow> int" where
  "round_half_even_rat y =
     (let f = \<lfloor>y\<rfloor>; r = y - of_int f
      in if 1 / 2 < r \<or> (r = 1 / 2 \<and> odd f) then f + 1 else f)"

definition numeric_result :: "rat \<Rightarrow> decimal" where
  "numeric_result x =
     \<lparr>dsign = x < 0, dcoeff = nat (round_half_even_rat (\<bar>x\<bar> * 100)), dexp = - 2\<rparr>"

subsection \<open>Request bodies and the pydantic schemas\<close>

text \<open>
  A request body gives each of the four keys or leaves it out: \<open>Unset\<close> is a key
  that is absent, \<open>Null\<close> is JSON \<^verbatim>\<open>null\<close>, \<open>Given v\<close> is a value. Values are
  taken after pydantic's conversion to the field's type (a string, a finite
  decimal, an integer); a value of another type is a validation error that no
  statement below is about.
\<close>

datatype 'a field = Unset | Null | Given 'a

record payload =
  p_name :: "string field"
  p_description :: "string field"
  p_price :: "decimal field"
  p_quantity :: "int field"

text \<open>
  What checking one field gives: the validated value, a validation error that
  pydantic collects (\<open>Invalid\<close>), or an exception that is neither a
  \<^verbatim>\<open>ValueError\<close> nor an \<^verbatim>\<open>AssertionError\<close>, which pydantic lets through at
  once (\<open>Raised\<close>).
\<close>

datatype 'a checked = Valid 'a | Invalid | Raised exn

text \<open>A validated \<^verbatim>\<open>ItemCreate\<close>.\<close>

record ItemCreate =
  ic_name :: string
  ic_description :: "string option"
  ic_price :: decimal
  ic_quantity :: int

text \<open>
  A validated \<^verbatim>\<open>ItemUpdate\<close>, with \<^verbatim>\<open>model_fields_set\<close>: a field is \<open>Unset\<close>
  when the body did not give it (it holds its default and is not in
  \<^verbatim>\<open>model_fields_set\<close>), \<open>Null\<close> when it was set to \<^verbatim>\<open>None\<close>, \<open>Given v\<close> when
  it was set to \<open>v\<close>.
\<close>

record ItemUpdate =
  iu_name :: "string field"
  iu_description :: "string field"
  iu_price :: "decimal field"
  iu_quantity :: "int field"

text \<open>
  \<^verbatim>\<open>ItemBase\<close>, which \<^verbatim>\<open>ItemCreate\<close> inherits unchanged.
  \<^verbatim>\<open>name: str = Field(..., min_length=1, max_length=50)\<close>.
\<close>

definition ItemBase_name :: "string field \<Rightarrow> string checked" where
  "ItemBase_name f =
     (case f of
        Unset \<Rightarrow> Invalid
      | Null \<Rightarrow> Invalid
      | Given s \<Rightarrow> if 1 \<le> length s \<and> length s \<le> 50 then Valid s else Invalid)"

text \<open>\<^verbatim>\<open>description: Optional[str] = Field(None, max_length=500)\<close>.\<close>

definition ItemBase_description :: "string field \<Rightarrow> string option checked" where
  "ItemBase_description f =
     (case f of
        Unset \<Rightarrow> Valid None
      | Null \<Rightarrow> Valid None
      | Given s \<Rightarrow> if length s \<le> 500 then Valid (Some s) else Invalid)"

text \<open>
  \<^verbatim>\<open>ItemBase.validate_price\<close>, the field validator: a \<^verbatim>\<open>ValueError\<close> becomes a
  validation error, the \<^verbatim>\<open>InvalidOperation\<close> of \<^verbatim>\<open>quantize\<close> does not.
\<close>

definition ItemBase_validate_price :: "decimal \<Rightarrow> decimal checked" where
  "ItemBase_validate_price v =
     (if dec_is_neg v then Invalid
      else case quantize v of Inl e \<Rightarrow> Raised e | Inr q \<Rightarrow> Valid q)"

text \<open>
  \<^verbatim>\<open>price: Decimal = Field(..., ge=0)\<close>; the field validator runs after the
  constraint, on a value that passed it.
\<close>

definition ItemBase_price :: "decimal field \<Rightarrow> decimal checked" where
  "ItemBase_price f =
     (case f of
        Unset \<Rightarrow> Invalid
      | Null \<Rightarrow> Invalid
      | Given d \<Rightarrow> if dec_is_neg d then Invalid else ItemBase_validate_price d)"

text \<open>\<^verbatim>\<open>quantity: int = Field(..., ge=0)\<close>.\<close>

definition ItemBase_quantity :: "int field \<Rightarrow> int checked" where
  "ItemBase_quantity f =
     (case f of
        Unset \<Rightarrow> Invalid
      | Null \<Rightarrow> Invalid
      | Given q \<Rightarrow> if 0 \<le> q then Valid q else Invalid)"

text \<open>
  \<^verbatim>\<open>ItemUpdate\<close> declares its fields again.
  \<^verbatim>\<open>name: Optional[str] = Field(..., min_length=1, max_length=50)\<close>: the
  \<^verbatim>\<open>...\<close> makes the field required, \<^verbatim>\<open>Optional\<close> lets it be \<^verbatim>\<open>None\<close>.
\<close>

definition ItemUpdate_name :: "string field \<Rightarrow> string field checked" where
  "ItemUpdate_name f =
     (case f of
        Unset \<Rightarrow> Invalid
      | Null \<Rightarrow> Valid Null
      | Given s \<Rightarrow> if 1 \<le> length s \<and> length s \<le> 50 then Valid (Given s) else Invalid)"

text \<open>
  \<^verbatim>\<open>description: Optional[str] = Field(None, max_length=500)\<close>: the one field with
  a default.
\<close>

definition ItemUpdate_description :: "string field \<Rightarrow> string field checked" where
  "ItemUpdate_description f =
     (case f of
        Unset \<Rightarrow> Valid Unset
      | Null \<Rightarrow> Valid Null
      | Given s \<Rightarrow> if length s \<le> 500 then Valid (Given s) else Invalid)"

text \<open>\<^verbatim>\<open>ItemUpdate.validate_price\<close>, on a value that may be \<^verbatim>\<open>None\<close>.\<close>

definition ItemUpdate_validate_price :: "decimal option \<Rightarrow> decimal field checked" where
  "ItemUpdate_validate_price v =
     (case v of
        None \<Rightarrow> Valid Null
      | Some d \<Rightarrow>
          if dec_is_neg d then Invalid
          else case quantize d of Inl e \<Rightarrow> Raised e | Inr q \<Rightarrow> Valid (Given q))"

text \<open>\<^verbatim>\<open>price: Optional[Decimal] = Field(..., ge=0)\<close>.\<close>

definition ItemUpdate_price :: "decimal field \<Rightarrow> decimal field checked" where
  "ItemUpdate_price f =
     (case f of
        Unset \<Rightarrow> Invalid
      | Null \<Rightarrow> ItemUpdate_validate_price None
      | Given d \<Rightarrow> if dec_is_neg d then Invalid else ItemUpdate_validate_price (Some d))"

text \<open>\<^verbatim>\<open>quantity: Optional[int] = Field(..., ge=0)\<close>.\<close>

definition ItemUpdate_quantity :: "int field \<Rightarrow> int field checked" where
  "ItemUpdate_quantity f =
     (case f of
        Unset \<Rightarrow> Invalid
      | Null \<Rightarrow> Valid Null
      | Given q \<Rightarrow> if 0 \<le> q then Valid (Given q) else Invalid)"

text \<open>
  Pydantic checks the fields in their order of declaration. It collects the
  validation errors and goes on to the next field; any other exception ends the
  validation at once. \<open>outcome\<close> forgets the value of a check, \<open>run_fields\<close>
  is that loop: the exception that ended it, or the names of the fields in error.
\<close>

fun outcome :: "'a checked \<Rightarrow> unit checked" where
  "outcome (Valid v) = Valid ()"
| "outcome Invalid = Invalid"
| "outcome (Raised e) = Raised e"

fun run_fields :: "(string \<times> unit checked) list \<Rightarrow> string list \<Rightarrow> exn + string list" where
  "run_fields [] errors = Inr errors"
| "run_fields ((f, Valid u) # rest) errors = run_fields rest errors"
| "run_fields ((f, Invalid) # rest) errors = run_fields rest (errors @ [f])"
| "run_fields ((f, Raised e) # rest) errors = Inl e"

text \<open>
  Building an \<^verbatim>\<open>ItemCreate\<close> from a request body: the model, a
  \<open>ValidationError\<close> with the fields in error, or the exception a validator let
  through.
\<close>

definition validate_ItemCreate :: "payload \<Rightarrow> exn + ItemCreate" where
  "validate_ItemCreate p =
     (let n = ItemBase_name (p_name p);
          d = ItemBase_description (p_description p);
          c = ItemBase_price (p_price p);
          q = ItemBase_quantity (p_quantity p)
      in case run_fields [(''name'', outcome n), (''description'', outcome d),
                          (''price'', outcome c), (''quantity'', outcome q)] [] of
           Inl e \<Rightarrow> Inl e
         | Inr errors \<Rightarrow>
             (case (n, d, c, q) of
                (Valid n', Valid d', Valid c', Valid q') \<Rightarrow>
                  Inr \<lparr>ic_name = n', ic_description = d', ic_price = c', ic_quantity = q'\<rparr>
              | _ \<Rightarrow> Inl (ValidationError errors)))"

text \<open>Building an \<^verbatim>\<open>ItemUpdate\<close> from a request body.\<close>

definition validate_ItemUpdate :: "payload \<Rightarrow> exn + ItemUpdate" where
  "validate_ItemUpdate p =
     (let n = ItemUpdate_name (p_name p);
          d = ItemUpdate_description (p_description p);
          c = ItemUpdate_price (p_price p);
          q = ItemUpdate_quantity (p_quantity p)
      in case run_fields [(''name'', outcome n), (''description'', outcome d),
                          (''price'', outcome c), (''quantity'', outcome q)] [] of
           Inl e \<Rightarrow> Inl e
         | Inr errors \<Rightarrow>
             (case (n, d, c, q) of
                (Valid n', Valid d', Valid c', Valid q') \<Rightarrow>
                  Inr \<lparr>iu_name = n', iu_description = d', iu_price = c', iu_quantity = q'\<rparr>
              | _ \<Rightarrow> Inl (ValidationError errors)))"

subsection \<open>The table and the session\<close>

text \<open>
  The columns of the table \<^verbatim>\<open>items\<close> of \<^verbatim>\<open>models.py\<close>: \<^verbatim>\<open>id\<close> is the primary
  key, \<^verbatim>\<open>name\<close>, \<^verbatim>\<open>price\<close> and \<^verbatim>\<open>quantity\<close> are \<^verbatim>\<open>nullable=False\<close>,
  \<^verbatim>\<open>description\<close> may be NULL. An \<open>Item\<close> is the object \<^verbatim>\<open>models.Item\<close> that
  the handlers hold, its price a decimal. A \<open>Row\<close> is a row of the table in
  SQLite, its price a number: SQLite has no decimal type, and SQLAlchemy sends the
  value of a \<^verbatim>\<open>Numeric\<close> column as a float.
\<close>

record 'p item_rec =
  item_id :: int
  name :: string
  description :: "string option"
  price :: 'p
  quantity :: int

type_synonym Item = "decimal item_rec"

type_synonym Row = "rat item_rec"

text \<open>
  \<open>row_of\<close> is the row written for an object: the bind processor of
  \<^verbatim>\<open>Numeric(10, 2)\<close> applies \<^verbatim>\<open>float\<close> to the price. \<open>load\<close> is the object
  built from a row that is read: the result processor gives the price as
  \<^verbatim>\<open>Decimal("%.2f" % value)\<close>.
\<close>

definition row_of :: "Item \<Rightarrow> Row" where
  "row_of r = \<lparr>item_id = item_id r, name = name r, description = description r,
               price = to_float (price r), quantity = quantity r\<rparr>"

definition load :: "Row \<Rightarrow> Item" where
  "load r = \<lparr>item_id = item_id r, name = name r, description = description r,
             price = numeric_result (price r), quantity = quantity r\<rparr>"

text \<open>
  SQLite holds an integer in 64 bits. \<^verbatim>\<open>sqlite3\<close> raises \<^verbatim>\<open>OverflowError\<close> when it
  is given a Python \<^verbatim>\<open>int\<close> outside that range as a parameter of a statement; the
  statement is then not run. SQLAlchemy passes that exception on as it is.
\<close>

definition int64 :: "int \<Rightarrow> bool" where
  "int64 n = (- (2 ^ 63) \<le> n \<and> n < 2 ^ 63)"

definition overflow_error :: exn where
  "overflow_error = OtherException ''Python int too large to convert to SQLite INTEGER''"

text \<open>
  What the handlers do to the outside, in order: the calls on the session
  (\<^verbatim>\<open>execute\<close>, \<^verbatim>\<open>commit\<close>, \<^verbatim>\<open>flush\<close>, \<^verbatim>\<open>rollback\<close>) and
  \<^verbatim>\<open>asyncio.sleep\<close>, with its delay in milliseconds.
\<close>

datatype event = Execute | Commit | Flush | Rollback | Sleep nat

text \<open>
  The state: the committed rows of the table, the rows as the open transaction of
  the session sees them, the trace of events so far, and what the store will do on
  the coming calls. \<open>faults\<close> holds one entry for each coming call of
  \<^verbatim>\<open>execute\<close>, \<^verbatim>\<open>commit\<close> or \<^verbatim>\<open>flush\<close> that reaches the store: \<open>None\<close> lets
  the call through, \<open>Some e\<close> makes it raise \<open>e\<close> (a lock held by another writer,
  a failing disk); past the end of the list every call goes through.
  \<^verbatim>\<open>rollback\<close> and \<^verbatim>\<open>sleep\<close> do not fail.

  \<open>error_context\<close> is the text that SQLAlchemy puts after the message of the
  driver when it prints an error of a statement: the statement, its parameters and
  a link to the documentation. The model leaves that text open.
\<close>

record world =
  committed :: "Row list"
  working :: "Row list"
  faults :: "exn option list"
  trace :: "event list"
  error_context :: string

definition db_call :: "event \<Rightarrow> world \<Rightarrow> exn option \<times> world" where
  "db_call ev w =
     (case faults w of
        [] \<Rightarrow> (None, w\<lparr>trace := trace w @ [ev]\<rparr>)
      | f # fs \<Rightarrow> (f, w\<lparr>faults := fs, trace := trace w @ [ev]\<rparr>))"

text \<open>
  \<^verbatim>\<open>await db.execute(select(models.Item).where(models.Item.id == item_id))\<close>: the
  id is a parameter of the statement; the rows found are loaded as objects.
\<close>

definition db_execute_select :: "int \<Rightarrow> world \<Rightarrow> (exn + Item list) \<times> world" where
  "db_execute_select i w =
     (if \<not> int64 i then (Inl overflow_error, w\<lparr>trace := trace w @ [Execute]\<rparr>)
      else
        case db_call Execute w of
          (Some e, w') \<Rightarrow> (Inl e, w')
        | (None, w') \<Rightarrow> (Inr (map load (filter (\<lambda>r. item_id r = i) (working w'))), w'))"

text \<open>\<^verbatim>\<open>result.scalar_one_or_none()\<close> and \<^verbatim>\<open>result.scalar_one()\<close>.\<close>

fun scalar_one_or_none :: "Item list \<Rightarrow> exn + Item option" where
  "scalar_one_or_none [] = Inr None"
| "scalar_one_or_none [r] = Inr (Some r)"
| "scalar_one_or_none rs = Inl (OtherException ''Multiple rows were found when one or none was required'')"

fun scalar_one :: "Item list \<Rightarrow> exn + Item" where
  "scalar_one [] = Inl (OtherException ''No row was found when one was required'')"
| "scalar_one [r] = Inr r"
| "scalar_one rs = Inl (OtherException ''Multiple rows were found when exactly one was required'')"

text \<open>
  \<^verbatim>\<open>UPDATE items SET ... WHERE id = ?\<close>. \<open>set_values conv\<close> is the \<^verbatim>\<open>SET\<close> part
  on one row or object: the columns that the update data hold are written, a
  \<^verbatim>\<open>None\<close> as NULL, and the other columns stay; \<open>conv\<close> is what becomes of the
  price on the way, \<open>to_float\<close> for a row of the table. \<open>not_null_violation\<close> is
  the check of the \<^verbatim>\<open>nullable=False\<close> columns, which fails the statement when a
  row is written: SQLite names the first such column in the order of the table,
  and SQLAlchemy's \<^verbatim>\<open>str(e)\<close> is the name of the driver's exception in brackets,
  the message of SQLite, and the context of the statement.
\<close>

definition set_values :: "(decimal \<Rightarrow> 'p) \<Rightarrow> ItemUpdate \<Rightarrow> 'p item_rec \<Rightarrow> 'p item_rec" where
  "set_values conv u r =
     \<lparr>item_id = item_id r,
      name = (case iu_name u of Given s \<Rightarrow> s | _ \<Rightarrow> name r),
      description = (case iu_description u of
                       Unset \<Rightarrow> description r | Null \<Rightarrow> None | Given s \<Rightarrow> Some s),
      price = (case iu_price u of Given d \<Rightarrow> conv d | _ \<Rightarrow> price r),
      quantity = (case iu_quantity u of Given q \<Rightarrow> q | _ \<Rightarrow> quantity r)\<rparr>"

definition not_null_violation :: "string \<Rightarrow> ItemUpdate \<Rightarrow> exn option" where
  "not_null_violation ctx u =
     (if iu_name u = Null
        then Some (IntegrityError
          (''(sqlite3.IntegrityError) NOT NULL constraint failed: items.name'' @ ctx))
      else if iu_price u = Null
        then Some (IntegrityError
          (''(sqlite3.IntegrityError) NOT NULL constraint failed: items.price'' @ ctx))
      else if iu_quantity u = Null
        then Some (IntegrityError
          (''(sqlite3.IntegrityError) NOT NULL constraint failed: items.quantity'' @ ctx))
      else None)"

definition update_rows :: "string \<Rightarrow> int \<Rightarrow> ItemUpdate \<Rightarrow> Row list \<Rightarrow> exn + Row list" where
  "update_rows ctx i u rows =
     (case (filter (\<lambda>r. item_id r = i) rows, not_null_violation ctx u) of
        (r # rs, Some e) \<Rightarrow> Inl e
      | _ \<Rightarrow> Inr (map (\<lambda>r. if item_id r = i then set_values to_float u r else r) rows))"

text \<open>
  \<^verbatim>\<open>await db.execute(update(models.Item).where(models.Item.id == item_id).values(**update_data))\<close>:
  the id and the values of the update data are the parameters of the statement.
\<close>

definition update_parameters_ok :: "int \<Rightarrow> ItemUpdate \<Rightarrow> bool" where
  "update_parameters_ok i u =
     (int64 i \<and> (case iu_quantity u of Given q \<Rightarrow> int64 q | _ \<Rightarrow> True))"

definition db_execute_update :: "int \<Rightarrow> ItemUpdate \<Rightarrow> world \<Rightarrow> (exn + unit) \<times> world" where
  "db_execute_update i u w =
     (if \<not> update_parameters_ok i u
      then (Inl overflow_error, w\<lparr>trace := trace w @ [Execute]\<rparr>)
      else
        case db_call Execute w of
          (Some e, w') \<Rightarrow> (Inl e, w')
        | (None, w') \<Rightarrow>
            (case update_rows (error_context w') i u (working w') of
               Inl e \<Rightarrow> (Inl e, w')
             | Inr rows \<Rightarrow> (Inr (), w'\<lparr>working := rows\<rparr>)))"

text \<open>\<^verbatim>\<open>await db.commit()\<close>, \<^verbatim>\<open>await db.rollback()\<close>, \<^verbatim>\<open>await asyncio.sleep(...)\<close>.\<close>

definition db_commit :: "world \<Rightarrow> (exn + unit) \<times> world" where
  "db_commit w =
     (case db_call Commit w of
        (Some e, w') \<Rightarrow> (Inl e, w')
      | (None, w') \<Rightarrow> (Inr (), w'\<lparr>committed := working w'\<rparr>))"

definition db_rollback :: "world \<Rightarrow> world" where
  "db_rollback w = w\<lparr>working := committed w, trace := trace w @ [Rollback]\<rparr>"

definition asyncio_sleep :: "nat \<Rightarrow> world \<Rightarrow> world" where
  "asyncio_sleep ms w = w\<lparr>trace := trace w @ [Sleep ms]\<rparr>"

text \<open>
  The id the store gives a new row: one more than the largest id of the table (1 in
  an empty table), as SQLite does for an integer primary key.
\<close>

definition next_id :: "Row list \<Rightarrow> int" where
  "next_id rows = fold max (map item_id rows) 0 + 1"

text \<open>
  \<^verbatim>\<open>db.add(db_item)\<close> followed by \<^verbatim>\<open>await db.commit()\<close>: the commit writes the
  pending row, which gets its id, and commits. \<^verbatim>\<open>models.Item(**item.dict())\<close>
  gives the object the price as the string of the decimal; the row gets the float
  of that string, and the object keeps the string, which stands for the same
  decimal and is held here as that decimal. The quantity is a parameter of the
  \<^verbatim>\<open>INSERT\<close>.
\<close>

definition db_add_commit :: "ItemCreate \<Rightarrow> world \<Rightarrow> (exn + Item) \<times> world" where
  "db_add_commit item w =
     (if \<not> int64 (ic_quantity item)
      then (Inl overflow_error, w\<lparr>trace := trace w @ [Commit]\<rparr>)
      else
        case db_call Commit w of
          (Some e, w') \<Rightarrow> (Inl e, w')
        | (None, w') \<Rightarrow>
            (let db_item = \<lparr>item_id = next_id (working w'), name = ic_name item,
                            description = ic_description item, price = ic_price item,
                            quantity = ic_quantity item\<rparr>
             in (Inr db_item, w'\<lparr>working := working w' @ [row_of db_item],
                                   committed := working w' @ [row_of db_item]\<rparr>)))"

text \<open>
  \<^verbatim>\<open>await db.delete(db_item)\<close> followed by \<^verbatim>\<open>await db.flush()\<close>: the flush sends
  \<^verbatim>\<open>DELETE FROM items WHERE id = ?\<close> inside the transaction.
\<close>

definition db_delete_flush :: "Item \<Rightarrow> world \<Rightarrow> (exn + unit) \<times> world" where
  "db_delete_flush db_item w =
     (case db_call Flush w of
        (Some e, w') \<Rightarrow> (Inl e, w')
      | (None, w') \<Rightarrow>
          (Inr (), w'\<lparr>working := filter (\<lambda>r. item_id r \<noteq> item_id db_item) (working w')\<rparr>))"

text \<open>
  \<^verbatim>\<open>get_db\<close> of \<^verbatim>\<open>database.py\<close>: a new session sees the committed table; when
  the handler returns the session commits, when the handler or the commit raises
  it rolls back and raises again.
\<close>

definition get_db :: "(world \<Rightarrow> (exn + 'a) \<times> world) \<Rightarrow> world \<Rightarrow> (exn + 'a) \<times> world" where
  "get_db handler w =
     (case handler (w\<lparr>working := committed w\<rparr>) of
        (Inl e, w') \<Rightarrow> (Inl e, db_rollback w')
      | (Inr r, w') \<Rightarrow>
          (case db_commit w' of
             (Inl e, w'') \<Rightarrow> (Inl e, db_rollback w'')
           | (Inr u, w'') \<Rightarrow> (Inr r, w'')))"

subsection \<open>Queries of the list handler\<close>

text \<open>
  SQLite's \<^verbatim>\<open>LIKE\<close>: in the pattern \<^verbatim>\<open>%\<close> stands for any run of characters,
  \<^verbatim>\<open>_\<close> for any one character, and every other character for itself, the case
  of ASCII letters ignored.
\<close>

fun like :: "string \<Rightarrow> string \<Rightarrow> bool" where
  "like [] s = (s = [])"
| "like (p # ps) [] = (p = CHR ''%'' \<and> like ps [])"
| "like (p # ps) (c # cs) =
     (if p = CHR ''%'' then like ps (c # cs) \<or> like (p # ps) cs
      else (p = CHR ''_'' \<or> lower_char p = lower_char c) \<and> like ps cs)"

text \<open>
  The conditions that \<^verbatim>\<open>list_items\<close> adds with \<^verbatim>\<open>query.where(...)\<close>:
  \<^verbatim>\<open>price >= min_price\<close>, \<^verbatim>\<open>price <= max_price\<close>, and
  \<^verbatim>\<open>name.contains(name_contains)\<close>, which SQLAlchemy renders as
  \<^verbatim>\<open>name LIKE '%' || ? || '%'\<close>. The bounds are values of the \<^verbatim>\<open>Numeric\<close>
  column and reach SQLite as floats, where they are compared with the stored
  numbers.
\<close>

datatype clause = PriceGe decimal | PriceLe decimal | NameContains string

fun holds :: "clause \<Rightarrow> Row \<Rightarrow> bool" where
  "holds (PriceGe m) r = (to_float m \<le> price r)"
| "holds (PriceLe m) r = (price r \<le> to_float m)"
| "holds (NameContains s) r = like (CHR ''%'' # s @ ''%'') (name r)"

text \<open>
  The rows a \<^verbatim>\<open>SELECT\<close> gives: those that meet every condition, in the order
  of the table, then \<^verbatim>\<open>OFFSET\<close> and \<^verbatim>\<open>LIMIT\<close>; the rows are loaded as objects.
\<close>

definition run_select :: "clause list \<Rightarrow> nat \<Rightarrow> nat \<Rightarrow> Row list \<Rightarrow> Item list" where
  "run_select query skip limit rows =
     map load (take limit (drop skip (filter (\<lambda>r. list_all (\<lambda>c. holds c r) query) rows)))"

subsection \<open>The handlers of main.py\<close>

text \<open>
  Each handler is its \<^verbatim>\<open>try\<close> block (\<open>_body\<close>), which raises what the session
  raises, and its \<^verbatim>\<open>except\<close> clauses, taken in their order.

  The session is made with \<^verbatim>\<open>expire_on_commit=False\<close> (\<^verbatim>\<open>database.py\<close>), so an
  object that the session holds keeps its attributes over a commit, and a
  \<^verbatim>\<open>SELECT\<close> that finds the row of an object the session holds gives that object
  as it is, without reading the columns into it again. That is why
  \<^verbatim>\<open>create_item\<close> returns \<open>db_item\<close> after its second \<^verbatim>\<open>SELECT\<close> has found
  exactly one row.
\<close>

definition create_item_body :: "ItemCreate \<Rightarrow> world \<Rightarrow> (exn + Item) \<times> world" where
  "create_item_body item w =
     (case db_add_commit item w of
        (Inl e, w1) \<Rightarrow> (Inl e, w1)
      | (Inr db_item, w1) \<Rightarrow>
          (case db_execute_select (item_id db_item) w1 of
             (Inl e, w2) \<Rightarrow> (Inl e, w2)
           | (Inr rows, w2) \<Rightarrow>
               (case scalar_one rows of
                  Inl e \<Rightarrow> (Inl e, w2)
                | Inr created_item \<Rightarrow> (Inr db_item, w2))))"

definition create_item :: "ItemCreate \<Rightarrow> world \<Rightarrow> (exn + Item) \<times> world" where
  "create_item item w =
     (case create_item_body item w of
        (Inr r, w') \<Rightarrow> (Inr r, w')
      | (Inl (IntegrityError m), w') \<Rightarrow>
          (Inl (HTTPException 400 (''Database integrity error: '' @ m)), db_rollback w')
      | (Inl e, w') \<Rightarrow>
          (Inl (HTTPException 500 (''Internal server error: '' @ str_exn e)), db_rollback w'))"

text \<open>
  \<^verbatim>\<open>list_items\<close>: \<open>skip\<close> and \<open>limit\<close> are natural numbers, as the
  \<^verbatim>\<open>Query\<close> constraints leave them, and parameters of the statement, where
  \<open>limit\<close> is at most 1000; \<^verbatim>\<open>if name_contains:\<close> passes over an empty string as
  it does over \<^verbatim>\<open>None\<close>.
\<close>

definition list_items ::
  "nat \<Rightarrow> nat \<Rightarrow> decimal option \<Rightarrow> decimal option \<Rightarrow> string option \<Rightarrow> world
     \<Rightarrow> (exn + Item list) \<times> world" where
  "list_items skip limit min_price max_price name_contains w =
     (let query0 = [];
          query1 = (case min_price of None \<Rightarrow> query0 | Some m \<Rightarrow> query0 @ [PriceGe m]);
          query2 = (case max_price of None \<Rightarrow> query1 | Some m \<Rightarrow> query1 @ [PriceLe m]);
          query3 = (case name_contains of
                      None \<Rightarrow> query2
                    | Some s \<Rightarrow> if s = [] then query2 else query2 @ [NameContains s])
      in if \<not> int64 (int skip)
         then (Inl (HTTPException 500 (''Database error: '' @ str_exn overflow_error)),
               w\<lparr>trace := trace w @ [Execute]\<rparr>)
         else
           case db_call Execute w of
             (Some e, w') \<Rightarrow> (Inl (HTTPException 500 (''Database error: '' @ str_exn e)), w')
           | (None, w') \<Rightarrow> (Inr (run_select query3 skip limit (working w')), w'))"

definition get_item_body :: "int \<Rightarrow> world \<Rightarrow> (exn + Item) \<times> world" where
  "get_item_body i w =
     (case db_execute_select i w of
        (Inl e, w1) \<Rightarrow> (Inl e, w1)
      | (Inr rows, w1) \<Rightarrow>
          (case scalar_one_or_none rows of
             Inl e \<Rightarrow> (Inl e, w1)
           | Inr None \<Rightarrow> (Inl (HTTPException 404 ''Item not found''), w1)
           | Inr (Some db_item) \<Rightarrow> (Inr db_item, w1)))"

definition get_item :: "int \<Rightarrow> world \<Rightarrow> (exn + Item) \<times> world" where
  "get_item i w =
     (case get_item_body i w of
        (Inr r, w') \<Rightarrow> (Inr r, w')
      | (Inl (HTTPException code detail), w') \<Rightarrow> (Inl (HTTPException code detail), w')
      | (Inl e, w') \<Rightarrow> (Inl (HTTPException 500 (''Database error: '' @ str_exn e)), w'))"

text \<open>
  \<^verbatim>\<open>update_data = item.model_dump(exclude_unset=True)\<close>: the keys of the
  dictionary are the fields of \<^verbatim>\<open>model_fields_set\<close>; a field set to \<^verbatim>\<open>None\<close> is
  among them. The price it holds is a \<^verbatim>\<open>Decimal\<close> or \<^verbatim>\<open>None\<close>, never a
  \<^verbatim>\<open>str\<close>, so the conversion that follows in the handler changes nothing. The
  handler does not call the method \<^verbatim>\<open>dict\<close> of \<^verbatim>\<open>ItemUpdate\<close>, which would
  leave out the fields that are \<^verbatim>\<open>None\<close>.
\<close>

definition model_dump_keys :: "ItemUpdate \<Rightarrow> string list" where
  "model_dump_keys u =
     (if iu_name u = Unset then [] else [''name'']) @
     (if iu_description u = Unset then [] else [''description'']) @
     (if iu_price u = Unset then [] else [''price'']) @
     (if iu_quantity u = Unset then [] else [''quantity''])"

definition max_retries :: nat where
  "max_retries = 3"

text \<open>\<^verbatim>\<open>retry_delay = 0.1\<close> seconds, in milliseconds.\<close>

definition retry_delay :: nat where
  "retry_delay = 100"

text \<open>
  The \<^verbatim>\<open>try\<close> block of \<^verbatim>\<open>update_item\<close>. The \<^verbatim>\<open>UPDATE\<close> goes through the
  session, which brings the object it holds for the row, \<open>existing_item\<close>, in line
  with the statement: the attributes named in the update data get the values of
  the update data. The \<^verbatim>\<open>SELECT\<close> after the commit finds the row of that object
  and gives the object.
\<close>

definition update_item_body :: "int \<Rightarrow> ItemUpdate \<Rightarrow> world \<Rightarrow> (exn + Item) \<times> world" where
  "update_item_body i item w =
     (case db_execute_select i w of
        (Inl e, w1) \<Rightarrow> (Inl e, w1)
      | (Inr rows, w1) \<Rightarrow>
          (case scalar_one_or_none rows of
             Inl e \<Rightarrow> (Inl e, w1)
           | Inr None \<Rightarrow> (Inl (HTTPException 404 ''Item not found''), w1)
           | Inr (Some existing_item) \<Rightarrow>
               if model_dump_keys item = []
               then (Inl (HTTPException 400 ''No fields to update provided''), w1)
               else
                 (case db_execute_update i item w1 of
                    (Inl e, w2) \<Rightarrow> (Inl e, w2)
                  | (Inr u, w2) \<Rightarrow>
                      (case db_commit w2 of
                         (Inl e, w3) \<Rightarrow> (Inl e, w3)
                       | (Inr u', w3) \<Rightarrow>
                           (case db_execute_select i w3 of
                              (Inl e, w4) \<Rightarrow> (Inl e, w4)
                            | (Inr rows', w4) \<Rightarrow>
                                (case scalar_one rows' of
                                   Inl e \<Rightarrow> (Inl e, w4)
                                 | Inr updated_item \<Rightarrow>
                                     (Inr (set_values (\<lambda>d. d) item existing_item), w4)))))))"

text \<open>
  The loop \<^verbatim>\<open>for attempt in range(max_retries)\<close> with the \<^verbatim>\<open>except\<close> clauses of
  the \<^verbatim>\<open>try\<close>: \<^verbatim>\<open>OperationalError\<close> first, \<^verbatim>\<open>IntegrityError\<close> next,
  \<^verbatim>\<open>Exception\<close> last, which is also where an \<^verbatim>\<open>HTTPException\<close> raised in the
  \<^verbatim>\<open>try\<close> block ends. The first argument is what is left of the range.
\<close>

fun update_item_loop ::
  "nat list \<Rightarrow> int \<Rightarrow> ItemUpdate \<Rightarrow> world \<Rightarrow> (exn + Item) \<times> world" where
  "update_item_loop [] i item w =
     (Inl (HTTPException 500 ''Max retries exceeded for update operation''), w)"
| "update_item_loop (attempt # rest) i item w =
     (case update_item_body i item w of
        (Inr r, w') \<Rightarrow> (Inr r, w')
      | (Inl (OperationalError m), w') \<Rightarrow>
          if str_contains ''locked'' (lower m) \<and> attempt < max_retries - 1
          then update_item_loop rest i item
                 (asyncio_sleep (retry_delay * (attempt + 1)) (db_rollback w'))
          else (Inl (HTTPException 500 ''Database is busy, please try again later''),
                db_rollback w')
      | (Inl (IntegrityError m), w') \<Rightarrow>
          (Inl (HTTPException 400 (''Database integrity error: '' @ m)), db_rollback w')
      | (Inl e, w') \<Rightarrow>
          (Inl (HTTPException 500 (''Internal server error: '' @ str_exn e)), db_rollback w'))"

definition update_item :: "int \<Rightarrow> ItemUpdate \<Rightarrow> world \<Rightarrow> (exn + Item) \<times> world" where
  "update_item i item w = update_item_loop [0..<max_retries] i item w"

definition delete_item_body :: "int \<Rightarrow> world \<Rightarrow> (exn + string) \<times> world" where
  "delete_item_body i w =
     (case db_execute_select i w of
        (Inl e, w1) \<Rightarrow> (Inl e, w1)
      | (Inr rows, w1) \<Rightarrow>
          (case scalar_one_or_none rows of
             Inl e \<Rightarrow> (Inl e, w1)
           | Inr None \<Rightarrow> (Inl (HTTPException 404 ''Item not found''), w1)
           | Inr (Some db_item) \<Rightarrow>
               (case db_delete_flush db_item w1 of
                  (Inl e, w2) \<Rightarrow> (Inl e, w2)
                | (Inr u, w2) \<Rightarrow> (Inr ''Item deleted successfully'', w2))))"

definition delete_item :: "int \<Rightarrow> world \<Rightarrow> (exn + string) \<times> world" where
  "delete_item i w =
     (case delete_item_body i w of
        (Inr r, w') \<Rightarrow> (Inr r, w')
      | (Inl (HTTPException code detail), w') \<Rightarrow>
          (Inl (HTTPException code detail), db_rollback w')
      | (Inl e, w') \<Rightarrow>
          (Inl (HTTPException 500 (''Database error: '' @ str_exn e)), db_rollback w'))"

subsection \<open>Requests\<close>

text \<open>
  A request as FastAPI serves it. The session dependency \<^verbatim>\<open>get_db\<close> is entered
  and the body is validated before the handler is called; when the body fails,
  the handler is not called and the exception is raised inside \<^verbatim>\<open>get_db\<close>, whose
  \<^verbatim>\<open>except\<close> clause rolls the unused session back.
\<close>

definition request_create_item :: "payload \<Rightarrow> world \<Rightarrow> (exn + Item) \<times> world" where
  "request_create_item body w =
     get_db (\<lambda>v. case validate_ItemCreate body of
                   Inl e \<Rightarrow> (Inl e, v)
                 | Inr item \<Rightarrow> create_item item v) w"

definition request_update_item :: "int \<Rightarrow> payload \<Rightarrow> world \<Rightarrow> (exn + Item) \<times> world" where
  "request_update_item i body w =
     get_db (\<lambda>v. case validate_ItemUpdate body of
                   Inl e \<Rightarrow> (Inl e, v)
                 | Inr item \<Rightarrow> update_item i item v) w"

definition request_get_item :: "int \<Rightarrow> world \<Rightarrow> (exn + Item) \<times> world" where
  "request_get_item i w = get_db (get_item i) w"

definition request_delete_item :: "int \<Rightarrow> world \<Rightarrow> (exn + string) \<times> world" where
  "request_delete_item i w = get_db (delete_item i) w"

subsection \<open>Reading the trace\<close>



definition store_calls :: "event list \<Rightarrow> event list" where
  "store_calls evs = filter (\<lambda>ev. ev = Execute \<or> ev = Commit \<or> ev = Flush) evs"

subsection \<open>Stored prices\<close>

text \<open>
  Every price of the rows is the float of a decimal with the exponent \<open>-2\<close>; and
  the same of the table as committed and as the open transaction sees it.
\<close>

definition prices_normalized :: "Row list \<Rightarrow> bool" where
  "prices_normalized rows = list_all (\<lambda>r. \<exists>q. dexp q = - 2 \<and> price r = to_float q) rows"

definition store_normalized :: "world \<Rightarrow> bool" where
  "store_normalized w = (prices_normalized (committed w) \<and> prices_normalized (working w))"

subsection \<open>A store that does not fail\<close>

text \<open>
  \<open>next_call_ok\<close>: the coming call on the session goes through. \<open>no_faults\<close>:
  every coming call does.
\<close>

definition next_call_ok :: "world \<Rightarrow> bool" where
  "next_call_ok w = (case faults w of [] \<Rightarrow> True | f # fs \<Rightarrow> f = None)"

definition no_faults :: "world \<Rightarrow> bool" where
  "no_faults w = list_all (\<lambda>f. f = None) (faults w)"

subsection \<open>Values for the examples\<close>

text \<open>
  A price given in cents, an object, and a state whose table holds the rows of the
  given objects, with the given faults.
\<close>

definition cents :: "nat \<Rightarrow> decimal" where
  "cents n = \<lparr>dsign = False, dcoeff = n, dexp = -2\<rparr>"

definition widget :: Item where
  "widget = \<lparr>item_id = 1, name = ''Widget'', description = Some ''A widget'',
             price = cents 1000, quantity = 5\<rparr>"

definition store_of :: "Item list \<Rightarrow> exn option list \<Rightarrow> world" where
  "store_of items fs = \<lparr>committed = map row_of items, working = map row_of items, faults = fs,
                        trace = [], error_context = []\<rparr>"

text \<open>Three items priced 5.00, 10.00 and 15.00.\<close>

definition priced :: "int \<Rightarrow> string \<Rightarrow> nat \<Rightarrow> Item" where
  "priced i n c = \<lparr>item_id = i, name = n, description = None, price = cents c, quantity = 1\<rparr>"

definition three_items :: "Item list" where
  "three_items = [priced 1 ''Bolt'' 500, priced 2 ''Nut'' 1000, priced 3 ''Gear'' 1500]"

text \<open>The request bodies \<^verbatim>\<open>{}\<close> and \<^verbatim>\<open>{"quantity": 3}\<close>.\<close>

definition no_fields :: payload where
  "no_fields = \<lparr>p_name = Unset, p_description = Unset, p_price = Unset, p_quantity = Unset\<rparr>"

definition only_quantity :: "int \<Rightarrow> payload" where
  "only_quantity q = no_fields\<lparr>p_quantity := Given q\<rparr>"

text \<open>
  A validated update that sets \<^verbatim>\<open>name\<close>, \<^verbatim>\<open>price\<close> and \<^verbatim>\<open>quantity\<close>, and the
  error SQLite reports while another connection holds the write lock.
\<close>

definition full_update :: ItemUpdate where
  "full_update = \<lparr>iu_name = Given ''Widget'', iu_description = Unset,
                  iu_price = Given (cents 1000), iu_quantity = Given 3\<rparr>"

definition locked :: exn where
  "locked = OperationalError ''(sqlite3.OperationalError) database is locked''"

section \<open>Properties\<close>

lemmas schema_defs =
  validate_ItemCreate_def validate_ItemUpdate_def
  ItemBase_name_def ItemBase_description_def ItemBase_price_def ItemBase_quantity_def
  ItemBase_validate_price_def
  ItemUpdate_name_def ItemUpdate_description_def ItemUpdate_price_def ItemUpdate_quantity_def
  ItemUpdate_validate_price_def

lemmas decimal_defs =
  dec_is_neg_def dec_le_def dec_scaled_def dec_signed_def quantize_def round_half_even_def context_prec_def
  cents_def

lemmas session_defs =
  db_call_def db_execute_select_def db_execute_update_def db_commit_def db_rollback_def
  asyncio_sleep_def db_add_commit_def db_delete_flush_def get_db_def set_values_def not_null_violation_def
  update_rows_def next_id_def int64_def update_parameters_ok_def overflow_error_def

lemmas handler_defs =
  create_item_body_def create_item_def list_items_def get_item_body_def get_item_def
  model_dump_keys_def update_item_body_def update_item_def delete_item_body_def delete_item_def
  max_retries_def retry_delay_def run_select_def

lemmas example_defs =
  widget_def store_of_def no_fields_def only_quantity_def full_update_def locked_def
  priced_def three_items_def

subsection \<open>Evaluating floats\<close>

lemma bitlen_0: "bitlen 0 = 0"
  by (simp add: bitlen.simps)

lemma bitlen_1: "bitlen 1 = 1"
  by (simp add: bitlen.simps)

lemma bitlen_Suc_0: "bitlen (Suc 0) = 1"
  by (simp add: bitlen.simps)

lemma bitlen_One: "bitlen (numeral Num.One) = 1"
  by (simp add: bitlen.simps)

lemma bitlen_Bit0: "bitlen (numeral (Num.Bit0 n)) = Suc (bitlen (numeral n))"
  by (subst bitlen.simps) simp

lemma bitlen_Bit1: "bitlen (numeral (Num.Bit1 n)) = Suc (bitlen (numeral n))"
  by (subst bitlen.simps) simp

lemma floor_rat_numeral: "\<lfloor>(numeral a::rat) / numeral b\<rfloor> = numeral a div numeral b"
  using floor_divide_of_int_eq [of "numeral a" "numeral b", where ?'a = rat] by simp

lemmas float_defs =
  to_float_def binary64_def mantissa_def ulp_exponent_def round_half_even_div_def Let_def
  bitlen_0 bitlen_1 bitlen_Suc_0 bitlen_One bitlen_Bit0 bitlen_Bit1 power_int_minus
  numeric_result_def round_half_even_rat_def floor_rat_numeral row_of_def load_def

text \<open>
  The prices of the examples as floats. 10.00 is a float; 12.34 is not, and the
  float nearest to it reads back as 12.34.
\<close>

lemma to_float_cents_500: "to_float (cents 500) = 5"
  by (simp add: float_defs cents_def)

lemma to_float_cents_1000: "to_float (cents 1000) = 10"
  by (simp add: float_defs cents_def)

lemma to_float_cents_1500: "to_float (cents 1500) = 15"
  by (simp add: float_defs cents_def)

lemma to_float_cents_1234: "to_float (cents 1234) = 3473401212609495 / 281474976710656"
  by (simp add: float_defs cents_def)

lemma numeric_result_5: "numeric_result 5 = cents 500"
  by (simp add: float_defs cents_def)

lemma numeric_result_10: "numeric_result 10 = cents 1000"
  by (simp add: float_defs cents_def)

lemma numeric_result_15: "numeric_result 15 = cents 1500"
  by (simp add: float_defs cents_def)

lemma numeric_result_1234: "numeric_result (3473401212609495 / 281474976710656) = cents 1234"
  by (simp add: float_defs cents_def)

lemmas float_examples =
  to_float_cents_500 to_float_cents_1000 to_float_cents_1500 to_float_cents_1234
  numeric_result_5 numeric_result_10 numeric_result_15 numeric_result_1234
  row_of_def load_def

subsection \<open>What validation lets through\<close>

lemma validate_ItemUpdate_Inr:
  assumes "validate_ItemUpdate body = Inr item"
  shows "ItemUpdate_name (p_name body) = Valid (iu_name item) \<and>
         ItemUpdate_description (p_description body) = Valid (iu_description item) \<and>
         ItemUpdate_price (p_price body) = Valid (iu_price item) \<and>
         ItemUpdate_quantity (p_quantity body) = Valid (iu_quantity item)"
  using assms
  by (auto simp: validate_ItemUpdate_def Let_def split: sum.splits checked.splits)

lemma validate_ItemCreate_Inr:
  assumes "validate_ItemCreate body = Inr item"
  shows "ItemBase_name (p_name body) = Valid (ic_name item) \<and>
         ItemBase_description (p_description body) = Valid (ic_description item) \<and>
         ItemBase_price (p_price body) = Valid (ic_price item) \<and>
         ItemBase_quantity (p_quantity body) = Valid (ic_quantity item)"
  using assms
  by (auto simp: validate_ItemCreate_def Let_def split: sum.splits checked.splits)

text \<open>
  Every \<^verbatim>\<open>ItemUpdate\<close> that validation builds has \<^verbatim>\<open>name\<close>, \<^verbatim>\<open>price\<close> and
  \<^verbatim>\<open>quantity\<close> in \<^verbatim>\<open>model_fields_set\<close>: the three fields are required. So the
  update data of the handler are never empty, and its own answer
  \<^verbatim>\<open>No fields to update provided\<close> is never given to a request.
\<close>

lemma validate_ItemUpdate_required:
  assumes "validate_ItemUpdate body = Inr item"
  shows "iu_name item \<noteq> Unset \<and> iu_price item \<noteq> Unset \<and> iu_quantity item \<noteq> Unset"
  using validate_ItemUpdate_Inr [OF assms]
  by (auto simp: ItemUpdate_name_def ItemUpdate_price_def ItemUpdate_quantity_def
        ItemUpdate_validate_price_def split: field.splits if_splits sum.splits)

lemma update_data_never_empty:
  assumes "validate_ItemUpdate body = Inr item"
  shows "model_dump_keys item \<noteq> []"
  using validate_ItemUpdate_required [OF assms] by (simp add: model_dump_keys_def)

text \<open>
  Claim C1. The claim: every field of the update body is optional, and a body that
  gives some of the fields passes validation. The code: the body
  \<^verbatim>\<open>{"quantity": 3}\<close> is rejected, with \<^verbatim>\<open>name\<close> and \<^verbatim>\<open>price\<close> reported
  missing, because \<^verbatim>\<open>ItemUpdate\<close> declares them with \<^verbatim>\<open>Field(...)\<close>; and so is
  every body that leaves out \<^verbatim>\<open>name\<close>, or \<^verbatim>\<open>price\<close>, or \<^verbatim>\<open>quantity\<close>.
\<close>

theorem update_only_quantity_fails_validation:
  "validate_ItemUpdate (only_quantity 3) = Inl (ValidationError [''name'', ''price'']) \<and>
   (\<exists>e. validate_ItemUpdate (body\<lparr>p_name := Unset\<rparr>) = Inl e) \<and>
   (\<exists>e. validate_ItemUpdate (body\<lparr>p_price := Unset\<rparr>) = Inl e) \<and>
   (\<exists>e. validate_ItemUpdate (body\<lparr>p_quantity := Unset\<rparr>) = Inl e)"
proof -
  have 1: "validate_ItemUpdate (only_quantity 3) = Inl (ValidationError [''name'', ''price''])"
    by (simp add: schema_defs example_defs)
  have 2: "\<exists>e. validate_ItemUpdate (body\<lparr>p_name := Unset\<rparr>) = Inl e"
    by (cases "validate_ItemUpdate (body\<lparr>p_name := Unset\<rparr>)")
       (auto dest!: validate_ItemUpdate_Inr simp: ItemUpdate_name_def)
  have 3: "\<exists>e. validate_ItemUpdate (body\<lparr>p_price := Unset\<rparr>) = Inl e"
    by (cases "validate_ItemUpdate (body\<lparr>p_price := Unset\<rparr>)")
       (auto dest!: validate_ItemUpdate_Inr simp: ItemUpdate_price_def)
  have 4: "\<exists>e. validate_ItemUpdate (body\<lparr>p_quantity := Unset\<rparr>) = Inl e"
    by (cases "validate_ItemUpdate (body\<lparr>p_quantity := Unset\<rparr>)")
       (auto dest!: validate_ItemUpdate_Inr simp: ItemUpdate_quantity_def)
  from 1 2 3 4 show ?thesis by blast
qed

text \<open>
  A request whose body fails validation: the handler is not called, \<^verbatim>\<open>get_db\<close>
  rolls the session back, which has sent nothing, and the exception goes on.
\<close>

lemma request_update_rejected:
  assumes "validate_ItemUpdate body = Inl e"
  shows "request_update_item i body w = (Inl e, db_rollback (w\<lparr>working := committed w\<rparr>))"
  using assms by (simp add: request_update_item_def get_db_def)

lemma request_create_rejected:
  assumes "validate_ItemCreate body = Inl e"
  shows "request_create_item body w = (Inl e, db_rollback (w\<lparr>working := committed w\<rparr>))"
  using assms by (simp add: request_create_item_def get_db_def)

lemma store_calls_rollback [simp]: "store_calls (evs @ [Rollback]) = store_calls evs"
  by (simp add: store_calls_def)

lemma rejected_state:
  "committed (db_rollback (w\<lparr>working := committed w\<rparr>)) = committed w \<and>
   faults (db_rollback (w\<lparr>working := committed w\<rparr>)) = faults w \<and>
   store_calls (trace (db_rollback (w\<lparr>working := committed w\<rparr>))) = store_calls (trace w)"
  by (simp add: db_rollback_def)

text \<open>
  Claim C2. The claim: an update that gives only the quantity changes the quantity
  of the stored row. The code: the request \<^verbatim>\<open>PUT /items/1\<close> with the body
  \<^verbatim>\<open>{"quantity": 3}\<close> fails validation and leaves the table as it was, the
  quantity of the row included; the handler is not called, and the one call on the
  session is the rollback of \<^verbatim>\<open>get_db\<close>. The same holds for every id, every
  state and every quantity.
\<close>

theorem update_only_quantity_changes_nothing:
  "request_update_item 1 (only_quantity 3) (store_of [widget] []) =
     (Inl (ValidationError [''name'', ''price'']), (store_of [widget] [])\<lparr>trace := [Rollback]\<rparr>) \<and>
   (\<exists>fs. request_update_item i (only_quantity q) w =
      (Inl (ValidationError fs), db_rollback (w\<lparr>working := committed w\<rparr>))) \<and>
   committed (db_rollback (w\<lparr>working := committed w\<rparr>)) = committed w"
  by (simp add: request_update_item_def get_db_def db_rollback_def schema_defs example_defs)

text \<open>
  Claim C4. An update request whose body gives no field fails with a validation
  error, whatever the id and the state. The committed table and the coming
  behaviour of the store are as before, and the trace has no new call of
  \<^verbatim>\<open>execute\<close>, \<^verbatim>\<open>commit\<close> or \<^verbatim>\<open>flush\<close>: nothing was sent to the store.
\<close>

theorem update_without_fields_rejected:
  "fst (request_update_item i no_fields w) =
     Inl (ValidationError [''name'', ''price'', ''quantity'']) \<and>
   committed (snd (request_update_item i no_fields w)) = committed w \<and>
   faults (snd (request_update_item i no_fields w)) = faults w \<and>
   store_calls (trace (snd (request_update_item i no_fields w))) = store_calls (trace w)"
proof -
  have "validate_ItemUpdate no_fields = Inl (ValidationError [''name'', ''price'', ''quantity''])"
    by (simp add: schema_defs example_defs)
  from request_update_rejected [OF this] rejected_state show ?thesis by simp
qed

text \<open>
  Claim C5. The claim: a store failure that is not contention never ends as
  \<^verbatim>\<open>Busy\<close>. The code: an \<^verbatim>\<open>OperationalError\<close> whose text does not hold
  \<^verbatim>\<open>locked\<close> takes the \<^verbatim>\<open>else\<close> branch of the contention clause; there is no
  retry and no delay, and the answer is \<^verbatim>\<open>Database is busy, please try again later\<close>.
\<close>

theorem update_disk_error_reported_busy:
  "update_item 1 full_update (store_of [widget] [Some (OperationalError ''disk I/O error'')]) =
     (Inl (HTTPException 500 ''Database is busy, please try again later''),
      (store_of [widget] [])\<lparr>trace := [Execute, Rollback]\<rparr>)"
  by (simp add: handler_defs session_defs example_defs lower_def lower_char_def upt_rec)

text \<open>
  Claim C9. The claim: a create request with an empty name fails with a validation
  error. The code: with the body \<^verbatim>\<open>{"name": "", "price": 1e30, "quantity": 1}\<close>
  the price validator runs \<^verbatim>\<open>quantize\<close>, which raises \<^verbatim>\<open>InvalidOperation\<close>;
  that exception is not a validation error and leaves the request unhandled. The
  handler is not called, and the one call on the session is the rollback of
  \<^verbatim>\<open>get_db\<close>.
\<close>

theorem create_empty_name_huge_price:
  "request_create_item
     \<lparr>p_name = Given '''', p_description = Unset,
      p_price = Given \<lparr>dsign = False, dcoeff = 1, dexp = 30\<rparr>, p_quantity = Given 1\<rparr> w =
   (Inl InvalidOperation, db_rollback (w\<lparr>working := committed w\<rparr>))"
  by (simp add: request_create_item_def get_db_def schema_defs decimal_defs)

subsection \<open>Calls on the session\<close>

lemma db_call_next_ok:
  "next_call_ok w \<Longrightarrow>
     db_call ev w = (None, w\<lparr>faults := tl (faults w), trace := trace w @ [ev]\<rparr>)"
  by (cases "faults w") (simp_all add: next_call_ok_def db_call_def)

lemma db_call_None:
  assumes "db_call ev w = (None, w')"
  shows "w' = w\<lparr>faults := tl (faults w), trace := trace w @ [ev]\<rparr>"
  using assms by (cases "faults w") (auto simp: db_call_def)

lemma list_all_tl: "list_all P xs \<Longrightarrow> list_all P (tl xs)"
  by (cases xs) simp_all

lemma db_call_no_faults:
  "list_all (\<lambda>f. f = None) (faults w) \<Longrightarrow>
     db_call ev w = (None, w\<lparr>faults := tl (faults w), trace := trace w @ [ev]\<rparr>)"
  by (cases "faults w") (simp_all add: db_call_def)

lemma scalar_one_or_none_Some: "scalar_one_or_none rows = Inr (Some r) \<longleftrightarrow> rows = [r]"
  by (cases rows rule: scalar_one_or_none.cases) auto

lemma scalar_one_or_none_None: "scalar_one_or_none rows = Inr None \<longleftrightarrow> rows = []"
  by (cases rows rule: scalar_one_or_none.cases) auto

lemma scalar_one_Inr: "scalar_one rows = Inr r \<longleftrightarrow> rows = [r]"
  by (cases rows rule: scalar_one.cases) auto

lemma get_db_Inr:
  assumes "get_db h w = (Inr r, w')"
  shows "\<exists>w1 u. h (w\<lparr>working := committed w\<rparr>) = (Inr r, w1) \<and> db_commit w1 = (Inr u, w')"
  using assms by (auto simp: get_db_def split: prod.splits sum.splits)

lemma db_commit_Inr:
  assumes "db_commit w = (Inr u, w')"
  shows "committed w' = working w \<and> working w' = working w"
  using assms by (auto simp: db_commit_def split: prod.splits option.splits dest!: db_call_None)

lemma db_call_rows:
  assumes "db_call ev w = (f, w')"
  shows "committed w' = committed w \<and> working w' = working w \<and>
         error_context w' = error_context w"
  using assms by (cases "faults w") (auto simp: db_call_def)

lemma db_execute_select_rows:
  assumes "db_execute_select i w = (r, w')"
  shows "committed w' = committed w \<and> working w' = working w \<and>
         error_context w' = error_context w"
  using assms
  by (auto simp: db_execute_select_def split: prod.splits option.splits if_splits
      dest: db_call_rows)

lemma db_execute_select_Inr:
  assumes "db_execute_select i w = (Inr rows, w')"
  shows "rows = map load (filter (\<lambda>r. item_id r = i) (working w)) \<and> int64 i"
  using assms
  by (auto simp: db_execute_select_def split: prod.splits option.splits if_splits
      dest: db_call_rows)

lemma item_id_load [simp]: "item_id (load r) = item_id r"
  by (simp add: load_def)

lemma item_id_row_of [simp]: "item_id (row_of r) = item_id r"
  by (simp add: row_of_def)

subsection \<open>Reading and deleting\<close>

lemma delete_item_body_Inr:
  assumes "delete_item_body i w = (Inr msg, w')"
  shows "working w' = filter (\<lambda>r. item_id r \<noteq> i) (working w) \<and> int64 i"
proof -
  from assms obtain rows w1 db_item w2 u where
    sel: "db_execute_select i w = (Inr rows, w1)" and
    one: "scalar_one_or_none rows = Inr (Some db_item)" and
    del: "db_delete_flush db_item w1 = (Inr u, w2)" and w': "w' = w2"
    by (auto simp: delete_item_body_def split: prod.splits sum.splits option.splits)
  from db_execute_select_Inr [OF sel] db_execute_select_rows [OF sel]
  have rows: "rows = map load (filter (\<lambda>r. item_id r = i) (working w))"
    and i: "int64 i" and w1: "working w1 = working w"
    by simp_all
  from one have "rows = [db_item]" by (simp add: scalar_one_or_none_Some)
  then have "db_item \<in> set rows" by simp
  then have id: "item_id db_item = i" unfolding rows by auto
  from del have "working w2 = filter (\<lambda>r. item_id r \<noteq> item_id db_item) (working w1)"
    by (auto simp: db_delete_flush_def split: prod.splits option.splits dest!: db_call_None)
  with id w1 w' i show ?thesis by simp
qed

lemma delete_item_Inr:
  assumes "delete_item i w = (Inr msg, w')"
  shows "delete_item_body i w = (Inr msg, w')"
  using assms by (auto simp: delete_item_def split: prod.splits sum.splits exn.splits)

lemma request_delete_removes:
  assumes "request_delete_item i w = (Inr msg, w')"
  shows "filter (\<lambda>r. item_id r = i) (committed w') = [] \<and> int64 i"
proof -
  from assms obtain w1 u where h: "delete_item i (w\<lparr>working := committed w\<rparr>) = (Inr msg, w1)"
    and c: "db_commit w1 = (Inr u, w')"
    unfolding request_delete_item_def by (blast dest: get_db_Inr)
  from delete_item_body_Inr [OF delete_item_Inr [OF h]]
  have "working w1 = filter (\<lambda>r. item_id r \<noteq> i) (committed w)" and "int64 i" by simp_all
  with db_commit_Inr [OF c] show ?thesis by simp
qed

text \<open>
  For an id that SQLite can hold: when no row of the table has the id and the call
  on the session goes through, \<^verbatim>\<open>GET /items/{id}\<close> answers 404
  \<^verbatim>\<open>Item not found\<close>; and so it does after a \<^verbatim>\<open>DELETE /items/{id}\<close> that
  succeeded, for the id that was deleted.
\<close>

lemma get_item_absent:
  assumes "int64 i" "next_call_ok w" "filter (\<lambda>r. item_id r = i) (committed w) = []"
  shows "fst (request_get_item i w) = Inl (HTTPException 404 ''Item not found'')"
proof -
  have "next_call_ok (w\<lparr>working := committed w\<rparr>)"
    using assms(2) by (simp add: next_call_ok_def)
  then show ?thesis using assms(1,3)
    by (simp add: request_get_item_def get_db_def get_item_def get_item_body_def
        db_execute_select_def db_call_next_ok db_rollback_def)
qed

lemma get_item_after_delete:
  assumes "request_delete_item i w = (Inr msg, w')" "next_call_ok w'"
  shows "fst (request_get_item i w') = Inl (HTTPException 404 ''Item not found'')"
  using request_delete_removes [OF assms(1)] assms(2) by (simp add: get_item_absent)

lemma get_item_absent_example:
  "fst (request_get_item 7 (store_of [widget] [])) = Inl (HTTPException 404 ''Item not found'')"
  by (rule get_item_absent) (simp_all add: int64_def next_call_ok_def example_defs)

text \<open>
  Claim C8. The claim: \<^verbatim>\<open>GET /items/{id}\<close> for an id that no row has answers
  404, never with the 500 of a store failure. The code: the path parameter is an
  \<^verbatim>\<open>int\<close> without bounds; for the id \<open>2 ^ 63\<close>, which no row can have,
  \<^verbatim>\<open>sqlite3\<close> raises \<^verbatim>\<open>OverflowError\<close> when the \<^verbatim>\<open>SELECT\<close> is sent, and the
  clause \<^verbatim>\<open>except Exception\<close> of \<^verbatim>\<open>get_item\<close> answers 500
  \<^verbatim>\<open>Database error\<close>, whatever the state of the store.
\<close>

theorem get_item_id_overflow:
  "fst (request_get_item (2 ^ 63) w) =
     Inl (HTTPException 500
       ''Database error: Python int too large to convert to SQLite INTEGER'') \<and>
   filter (\<lambda>r. item_id r = 2 ^ 63) (committed (store_of [widget] [])) = [] \<and>
   no_faults (store_of [widget] [])"
  by (simp add: request_get_item_def get_db_def get_item_def get_item_body_def
      db_execute_select_def int64_def overflow_error_def no_faults_def example_defs)

subsection \<open>Writing an update\<close>

lemma set_values_id [simp]: "item_id (set_values conv u r) = item_id r"
  by (simp add: set_values_def)

lemma filter_updated:
  "filter (\<lambda>r. item_id r = i)
     (map (\<lambda>r. if item_id r = i then set_values conv u r else r) rows) =
   map (set_values conv u) (filter (\<lambda>r. item_id r = i) rows)"
  by (induction rows) simp_all

lemma not_null_violation_Some:
  assumes "not_null_violation ctx u = Some e"
  shows "\<exists>m. e = IntegrityError m"
  using assms by (auto simp: not_null_violation_def split: if_splits)

lemma not_null_violation_None:
  "not_null_violation ctx u = None \<longleftrightarrow>
     iu_name u \<noteq> Null \<and> iu_price u \<noteq> Null \<and> iu_quantity u \<noteq> Null"
  by (simp add: not_null_violation_def)

text \<open>
  One run of the \<^verbatim>\<open>try\<close> block on a store that does not fail, for an item that
  exists and parameters that SQLite can hold: the update is written, committed and
  read again; or, with a NULL for a \<^verbatim>\<open>nullable=False\<close> column, the \<^verbatim>\<open>UPDATE\<close>
  raises.
\<close>

lemma update_item_body_written:
  assumes "list_all (\<lambda>f. f = None) (faults w)"
    and "filter (\<lambda>r. item_id r = i) (working w) = [row]"
    and "model_dump_keys item \<noteq> []"
    and "iu_name item \<noteq> Null \<and> iu_price item \<noteq> Null \<and> iu_quantity item \<noteq> Null"
    and "update_parameters_ok i item"
  shows "update_item_body i item w =
     (Inr (set_values (\<lambda>d. d) item (load row)),
      w\<lparr>working := map (\<lambda>r. if item_id r = i then set_values to_float item r else r) (working w),
        committed := map (\<lambda>r. if item_id r = i then set_values to_float item r else r) (working w),
        faults := tl (tl (tl (tl (faults w)))),
        trace := trace w @ [Execute, Execute, Commit, Execute]\<rparr>)"
proof -
  from assms(5) have i: "int64 i" by (simp add: update_parameters_ok_def)
  from assms(4) have nn: "not_null_violation ctx item = None" for ctx
    by (simp add: not_null_violation_None)
  show ?thesis
    using assms(1,2,3,5) i
    by (simp add: update_item_body_def db_execute_select_def db_execute_update_def db_commit_def
        db_call_no_faults list_all_tl update_rows_def filter_updated nn)
qed

lemma update_item_body_violation:
  assumes "list_all (\<lambda>f. f = None) (faults w)"
    and "filter (\<lambda>r. item_id r = i) (working w) = [row]"
    and "model_dump_keys item \<noteq> []"
    and "not_null_violation (error_context w) item = Some e"
    and "update_parameters_ok i item"
  shows "update_item_body i item w =
     (Inl e, w\<lparr>faults := tl (tl (faults w)), trace := trace w @ [Execute, Execute]\<rparr>)"
proof -
  from assms(5) have i: "int64 i" by (simp add: update_parameters_ok_def)
  show ?thesis
    using assms i
    by (simp add: update_item_body_def db_execute_select_def db_execute_update_def db_commit_def
        db_call_no_faults list_all_tl update_rows_def filter_updated)
qed

lemma range_max_retries: "[0..<max_retries] = [0, 1, 2]"
  by (simp add: max_retries_def upt_rec)

lemma update_item_Inr:
  assumes "update_item_body i item w = (Inr r, w')"
  shows "update_item i item w = (Inr r, w')"
  using assms by (simp add: update_item_def range_max_retries)

lemma update_item_integrity:
  assumes "update_item_body i item w = (Inl (IntegrityError m), w')"
  shows "update_item i item w =
     (Inl (HTTPException 400 (''Database integrity error: '' @ m)), db_rollback w')"
  using assms by (simp add: update_item_def range_max_retries)

text \<open>A \<^verbatim>\<open>null\<close> of the body is a \<^verbatim>\<open>None\<close> of the model that was set.\<close>

lemma validate_ItemUpdate_null:
  assumes "validate_ItemUpdate body = Inr item"
  shows "(p_name body = Null \<longleftrightarrow> iu_name item = Null) \<and>
         (p_description body = Null \<longleftrightarrow> iu_description item = Null) \<and>
         (p_price body = Null \<longleftrightarrow> iu_price item = Null) \<and>
         (p_quantity body = Null \<longleftrightarrow> iu_quantity item = Null)"
  using validate_ItemUpdate_Inr [OF assms]
  by (auto simp: ItemUpdate_name_def ItemUpdate_description_def ItemUpdate_price_def
        ItemUpdate_quantity_def ItemUpdate_validate_price_def
        split: field.splits if_splits sum.splits)

lemma request_update_null_violation:
  assumes v: "validate_ItemUpdate body = Inr item"
    and row: "filter (\<lambda>r. item_id r = i) (committed w) = [row]"
    and nf: "no_faults w"
    and ok: "update_parameters_ok i item"
    and null: "p_name body = Null \<or> p_price body = Null \<or> p_quantity body = Null"
  shows "\<exists>m w'. request_update_item i body w =
           (Inl (HTTPException 400 (''Database integrity error: '' @ m)), w') \<and>
           committed w' = committed w"
proof -
  let ?w0 = "w\<lparr>working := committed w\<rparr>"
  from null validate_ItemUpdate_null [OF v]
  have "not_null_violation (error_context ?w0) item \<noteq> None"
    by (auto simp: not_null_violation_None)
  then obtain e where e: "not_null_violation (error_context ?w0) item = Some e" by auto
  then obtain m where m: "e = IntegrityError m"
    by (blast dest: not_null_violation_Some)
  have nf0: "list_all (\<lambda>f. f = None) (faults ?w0)" using nf by (simp add: no_faults_def)
  have row0: "filter (\<lambda>r. item_id r = i) (working ?w0) = [row]" using row by simp
  from update_item_body_violation [OF nf0 row0 update_data_never_empty [OF v] e ok]
  have "update_item_body i item ?w0 =
      (Inl e, ?w0\<lparr>faults := tl (tl (faults ?w0)), trace := trace ?w0 @ [Execute, Execute]\<rparr>)" .
  from update_item_integrity [OF this [unfolded m]]
  show ?thesis using v
    by (simp add: request_update_item_def get_db_def db_rollback_def)
qed

lemma request_update_null_description:
  assumes v: "validate_ItemUpdate body = Inr item"
    and row: "filter (\<lambda>r. item_id r = i) (committed w) = [row]"
    and nf: "no_faults w"
    and ok: "update_parameters_ok i item"
    and null: "p_description body = Null"
    and rest: "p_name body \<noteq> Null" "p_price body \<noteq> Null" "p_quantity body \<noteq> Null"
  shows "\<exists>r w'. request_update_item i body w = (Inr r, w') \<and> description r = None \<and>
           (\<exists>s. filter (\<lambda>r. item_id r = i) (committed w') = [s] \<and> description s = None)"
proof -
  let ?w0 = "w\<lparr>working := committed w\<rparr>"
  from rest validate_ItemUpdate_null [OF v]
  have nn: "iu_name item \<noteq> Null \<and> iu_price item \<noteq> Null \<and> iu_quantity item \<noteq> Null" by simp
  from null validate_ItemUpdate_null [OF v] have d: "iu_description item = Null" by simp
  have nf0: "list_all (\<lambda>f. f = None) (faults ?w0)" using nf by (simp add: no_faults_def)
  have row0: "filter (\<lambda>r. item_id r = i) (working ?w0) = [row]" using row by simp
  note b = update_item_body_written [OF nf0 row0 update_data_never_empty [OF v] nn ok]
  have nf4: "list_all (\<lambda>f. f = None) (tl (tl (tl (tl (faults w)))))"
    using nf by (simp add: no_faults_def list_all_tl)
  from update_item_Inr [OF b] v nf4 row d
  show ?thesis
    by (simp add: request_update_item_def get_db_def db_commit_def db_call_no_faults
        filter_updated set_values_def)
qed

lemma null_is_dumped:
  assumes "validate_ItemUpdate body = Inr item"
  shows "(p_name body = Null \<longrightarrow> ''name'' \<in> set (model_dump_keys item)) \<and>
         (p_description body = Null \<longrightarrow> ''description'' \<in> set (model_dump_keys item)) \<and>
         (p_price body = Null \<longrightarrow> ''price'' \<in> set (model_dump_keys item)) \<and>
         (p_quantity body = Null \<longrightarrow> ''quantity'' \<in> set (model_dump_keys item))"
  using validate_ItemUpdate_null [OF assms] by (simp add: model_dump_keys_def)

text \<open>
  Claim C10. In an update request that passes validation, on an item that exists,
  with an id and a quantity that SQLite can hold and a store that does not fail: a
  field given as \<^verbatim>\<open>null\<close> is among the keys of the update data; a \<^verbatim>\<open>null\<close> for
  \<^verbatim>\<open>name\<close>, \<^verbatim>\<open>price\<close> or \<^verbatim>\<open>quantity\<close> makes the \<^verbatim>\<open>UPDATE\<close> fail, the request
  answers 400 with a detail that begins \<^verbatim>\<open>Database integrity error: \<close>, and the
  table stays as it was; a \<^verbatim>\<open>null\<close> for \<^verbatim>\<open>description\<close> alone is written, and
  the item returned and the row stored have no description.
\<close>

theorem update_null_is_written:
  assumes "validate_ItemUpdate body = Inr item"
    and "filter (\<lambda>r. item_id r = i) (committed w) = [row]"
    and "no_faults w"
    and "update_parameters_ok i item"
  shows "((p_name body = Null \<longrightarrow> ''name'' \<in> set (model_dump_keys item)) \<and>
          (p_description body = Null \<longrightarrow> ''description'' \<in> set (model_dump_keys item)) \<and>
          (p_price body = Null \<longrightarrow> ''price'' \<in> set (model_dump_keys item)) \<and>
          (p_quantity body = Null \<longrightarrow> ''quantity'' \<in> set (model_dump_keys item))) \<and>
         (p_name body = Null \<or> p_price body = Null \<or> p_quantity body = Null \<longrightarrow>
            (\<exists>m w'. request_update_item i body w =
               (Inl (HTTPException 400 (''Database integrity error: '' @ m)), w') \<and>
               committed w' = committed w)) \<and>
         (p_description body = Null \<and> p_name body \<noteq> Null \<and> p_price body \<noteq> Null \<and>
          p_quantity body \<noteq> Null \<longrightarrow>
            (\<exists>r w'. request_update_item i body w = (Inr r, w') \<and> description r = None \<and>
               (\<exists>s. filter (\<lambda>r. item_id r = i) (committed w') = [s] \<and> description s = None)))"
  using null_is_dumped [OF assms(1)] request_update_null_violation [OF assms]
    request_update_null_description [OF assms]
  by blast

theorem update_null_is_written_witness:
  "(\<exists>m w'. request_update_item 1
       \<lparr>p_name = Null, p_description = Unset, p_price = Given (cents 1000),
        p_quantity = Given 3\<rparr> (store_of [widget] []) =
       (Inl (HTTPException 400 (''Database integrity error: '' @ m)), w') \<and>
       committed w' = [row_of widget]) \<and>
   (\<exists>r w'. request_update_item 1
       \<lparr>p_name = Given ''Widget'', p_description = Null, p_price = Given (cents 1000),
        p_quantity = Given 3\<rparr> (store_of [widget] []) = (Inr r, w') \<and>
       description r = None \<and>
       (\<exists>s. filter (\<lambda>r. item_id r = 1) (committed w') = [s] \<and> description s = None)) \<and>
   description widget = Some ''A widget''"
proof -
  let ?w = "store_of [widget] []"
  let ?b1 = "\<lparr>p_name = Null, p_description = Unset, p_price = Given (cents 1000),
              p_quantity = Given 3\<rparr>"
  let ?b2 = "\<lparr>p_name = Given ''Widget'', p_description = Null, p_price = Given (cents 1000),
              p_quantity = Given 3\<rparr>"
  let ?i1 = "\<lparr>iu_name = Null, iu_description = Unset, iu_price = Given (cents 1000),
              iu_quantity = Given 3\<rparr>"
  let ?i2 = "\<lparr>iu_name = Given ''Widget'', iu_description = Null, iu_price = Given (cents 1000),
              iu_quantity = Given 3\<rparr>"
  have v1: "validate_ItemUpdate ?b1 = Inr ?i1"
    by (simp add: schema_defs decimal_defs)
  have v2: "validate_ItemUpdate ?b2 = Inr ?i2"
    by (simp add: schema_defs decimal_defs)
  have row: "filter (\<lambda>r. item_id r = 1) (committed ?w) = [row_of widget]"
    by (simp add: example_defs)
  have nf: "no_faults ?w" by (simp add: no_faults_def store_of_def)
  have ok: "update_parameters_ok 1 ?i1" "update_parameters_ok 1 ?i2"
    by (simp_all add: update_parameters_ok_def int64_def)
  have c: "committed ?w = [row_of widget]" by (simp add: store_of_def)
  from update_null_is_written [OF v1 row nf ok(1)] update_null_is_written [OF v2 row nf ok(2)] c
  show ?thesis by (simp add: widget_def)
qed

subsection \<open>The retry loop of update_item\<close>











subsection \<open>Rounding to cents\<close>

text \<open>
  \<open>round_half_even c k\<close> is a nearest multiple of \<open>10^k\<close>, and the even one of the
  two on a tie.
\<close>

lemma round_half_even_close:
  "2 * \<bar>int (round_half_even c k) * 10 ^ k - int c\<bar> \<le> 10 ^ k"
proof -
  define p :: nat where "p = 10 ^ k"
  define q where "q = c div p"
  define r where "r = c mod p"
  have c: "c = q * p + r" by (simp add: q_def r_def)
  have p: "0 < p" by (simp add: p_def)
  have r: "r < p" using p by (simp add: r_def)
  have ip: "(10::int) ^ k = int p" by (simp add: p_def)
  show ?thesis
  proof (cases "2 * r > p \<or> (2 * r = p \<and> odd q)")
    case True
    then have "round_half_even c k = q + 1"
      by (simp add: round_half_even_def Let_def p_def q_def r_def)
    moreover have "int (q + 1) * int p - int c = int p - int r"
      unfolding c by (simp add: algebra_simps)
    ultimately show ?thesis using True r unfolding ip by auto
  next
    case False
    then have "round_half_even c k = q"
      by (auto simp add: round_half_even_def Let_def p_def q_def r_def)
    moreover have "int q * int p - int c = - int r"
      unfolding c by (simp add: algebra_simps)
    ultimately show ?thesis using False unfolding ip by auto
  qed
qed

lemma round_half_even_tie:
  assumes "2 * (c mod 10 ^ k) = 10 ^ k"
  shows "even (round_half_even c k)"
  using assms by (simp add: round_half_even_def Let_def)

lemma quantize_Inr:
  assumes "quantize d = Inr q"
  shows "dexp q = - 2 \<and> dsign q = dsign d \<and> dcoeff q < 10 ^ context_prec"
  using assms by (auto simp: quantize_def Let_def split: if_splits)

text \<open>
  The result of \<^verbatim>\<open>quantize\<close> is within half a cent of its argument: both values
  are taken in units of the smaller of the two exponents, in which a cent is
  \<open>10 ^ nat (- 2 - m)\<close>.
\<close>

lemma quantize_close:
  assumes "quantize d = Inr q"
  shows "2 * \<bar>dec_scaled q (min (dexp d) (- 2)) - dec_scaled d (min (dexp d) (- 2))\<bar>
           \<le> 10 ^ nat (- 2 - min (dexp d) (- 2))"
proof (cases "dcoeff d = 0")
  case True
  with assms show ?thesis by (auto simp: quantize_def dec_scaled_def dec_signed_def)
next
  case nz: False
  show ?thesis
  proof (cases "- 2 \<le> dexp d")
    case True
    with nz assms have "dcoeff q = dcoeff d * 10 ^ nat (dexp d + 2)" "dexp q = - 2"
      "dsign q = dsign d"
      by (auto simp: quantize_def Let_def split: if_splits)
    with True show ?thesis by (simp add: dec_scaled_def dec_signed_def min_def)
  next
    case False
    with nz assms have q: "dcoeff q = round_half_even (dcoeff d) (nat (- 2 - dexp d))"
      "dexp q = - 2" "dsign q = dsign d"
      by (auto simp: quantize_def Let_def split: if_splits)
    from False have m: "min (dexp d) (- 2) = dexp d" by simp
    have "\<bar>dec_scaled q (dexp d) - dec_scaled d (dexp d)\<bar> =
        \<bar>int (round_half_even (dcoeff d) (nat (- 2 - dexp d))) * 10 ^ nat (- 2 - dexp d)
           - int (dcoeff d)\<bar>"
      using q by (simp add: dec_scaled_def dec_signed_def abs_minus_commute)
    then show ?thesis
      unfolding m using round_half_even_close [of "dcoeff d" "nat (- 2 - dexp d)"] by simp
  qed
qed

text \<open>
  The comparisons and \<^verbatim>\<open>quantize\<close> in terms of the numbers: \<open>dec_le\<close> is \<open>\<le>\<close>,
  \<open>dec_is_neg\<close> is \<open>< 0\<close>, and the result of \<^verbatim>\<open>quantize\<close> is within half a cent
  of its argument.
\<close>

lemma powi_nat: "0 \<le> k \<Longrightarrow> (x::rat) powi k = x ^ nat k"
  by (simp add: power_int_def)

lemma dec_value_scaled:
  assumes "m \<le> dexp d"
  shows "dec_value d = of_int (dec_scaled d m) * 10 powi m"
proof -
  have "(10::rat) powi (dexp d) = 10 powi (m + (dexp d - m))" by simp
  also have "\<dots> = 10 powi m * 10 powi (dexp d - m)"
    by (rule power_int_add) simp
  also have "\<dots> = 10 powi m * 10 ^ nat (dexp d - m)"
    using assms by (simp add: powi_nat)
  finally show ?thesis by (simp add: dec_value_def dec_scaled_def)
qed

lemma dec_le_value: "dec_le a b \<longleftrightarrow> dec_value a \<le> dec_value b"
proof -
  let ?m = "min (dexp a) (dexp b)"
  have p: "(0::rat) < 10 powi ?m" by simp
  have "dec_value a \<le> dec_value b \<longleftrightarrow>
        of_int (dec_scaled a ?m) * 10 powi ?m \<le> (of_int (dec_scaled b ?m) * 10 powi ?m :: rat)"
    by (simp add: dec_value_scaled [of ?m a] dec_value_scaled [of ?m b])
  also have "\<dots> \<longleftrightarrow> (of_int (dec_scaled a ?m) :: rat) \<le> of_int (dec_scaled b ?m)"
    using p by (simp only: mult_le_cancel_right_pos)
  also have "\<dots> \<longleftrightarrow> dec_le a b" by (simp add: dec_le_def Let_def)
  finally show ?thesis by simp
qed

lemma dec_is_neg_value: "dec_is_neg d \<longleftrightarrow> dec_value d < 0"
proof -
  have p: "(0::rat) < 10 powi (dexp d)" by simp
  then have np: "\<not> (10::rat) powi (dexp d) < 0" by (simp add: not_less less_imp_le)
  have "dec_value d < 0 \<longleftrightarrow> (of_int (dec_signed d) :: rat) < 0"
    unfolding dec_value_def using p np by (simp add: mult_less_0_iff)
  also have "\<dots> \<longleftrightarrow> dec_is_neg d" by (auto simp: dec_is_neg_def dec_signed_def)
  finally show ?thesis by simp
qed

lemma quantize_value:
  assumes "quantize d = Inr q"
  shows "\<bar>dec_value q - dec_value d\<bar> \<le> 1 / 200"
proof -
  let ?m = "min (dexp d) (- 2)"
  from quantize_Inr [OF assms] have e: "dexp q = - 2" by simp
  have mq: "?m \<le> dexp q" and md: "?m \<le> dexp d" using e by simp_all
  have p: "(0::rat) < 10 powi ?m" by simp
  have cent: "(10::rat) powi ?m * 10 ^ nat (- 2 - ?m) = 1 / 100"
  proof -
    have "(10::rat) powi ?m * 10 ^ nat (- 2 - ?m) = 10 powi ?m * 10 powi (- 2 - ?m)"
      by (simp add: powi_nat)
    also have "\<dots> = 10 powi (?m + (- 2 - ?m))"
      by (rule power_int_add [symmetric]) simp
    also have "?m + (- 2 - ?m) = - 2" by simp
    finally show ?thesis by (simp add: power_int_minus)
  qed
  have "\<bar>dec_value q - dec_value d\<bar> =
        \<bar>of_int (dec_scaled q ?m - dec_scaled d ?m) :: rat\<bar> * 10 powi ?m"
    using p by (simp add: dec_value_scaled [OF mq] dec_value_scaled [OF md]
        left_diff_distrib [symmetric] abs_mult less_imp_le)
  also have "\<dots> = of_int \<bar>dec_scaled q ?m - dec_scaled d ?m\<bar> * 10 powi ?m" by simp
  finally have v: "\<bar>dec_value q - dec_value d\<bar> =
      of_int \<bar>dec_scaled q ?m - dec_scaled d ?m\<bar> * 10 powi ?m" .
  from quantize_close [OF assms]
  have "(of_int (2 * \<bar>dec_scaled q ?m - dec_scaled d ?m\<bar>) :: rat) \<le> of_int (10 ^ nat (- 2 - ?m))"
    by (simp only: of_int_le_iff)
  then have "(of_int (2 * \<bar>dec_scaled q ?m - dec_scaled d ?m\<bar>) :: rat) * 10 powi ?m
        \<le> of_int (10 ^ nat (- 2 - ?m)) * 10 powi ?m"
    using p by (simp only: mult_le_cancel_right_pos)
  then have "2 * \<bar>dec_value q - dec_value d\<bar> \<le> 10 powi ?m * 10 ^ nat (- 2 - ?m)"
    unfolding v by (simp add: mult.assoc mult.commute)
  then show ?thesis unfolding cent by simp
qed

subsection \<open>Prices that pass validation\<close>

lemma validated_create_price:
  assumes "validate_ItemCreate body = Inr item"
  shows "\<exists>d. p_price body = Given d \<and> \<not> dec_is_neg d \<and> quantize d = Inr (ic_price item)"
  using validate_ItemCreate_Inr [OF assms]
  by (auto simp: ItemBase_price_def ItemBase_validate_price_def
      split: field.splits if_splits sum.splits)

lemma validated_update_price:
  assumes "validate_ItemUpdate body = Inr item"
  shows "iu_price item = Null \<or>
         (\<exists>d q. p_price body = Given d \<and> \<not> dec_is_neg d \<and> quantize d = Inr q \<and>
                 iu_price item = Given q)"
  using validate_ItemUpdate_Inr [OF assms]
  by (auto simp: ItemUpdate_price_def ItemUpdate_validate_price_def
      split: field.splits if_splits sum.splits)


subsection \<open>Stored prices are the floats of prices with two decimal places\<close>

lemma db_commit_normalized:
  assumes "db_commit w = (r, w')" "store_normalized w"
  shows "store_normalized w'"
  using assms
  by (auto simp: db_commit_def store_normalized_def split: prod.splits option.splits
      dest: db_call_rows)

lemma db_rollback_normalized: "store_normalized w \<Longrightarrow> store_normalized (db_rollback w)"
  by (simp add: store_normalized_def db_rollback_def)

lemma asyncio_sleep_normalized [simp]: "store_normalized (asyncio_sleep ms w) = store_normalized w"
  by (simp add: store_normalized_def asyncio_sleep_def)

lemma trace_normalized [simp]: "store_normalized (w\<lparr>trace := t\<rparr>) = store_normalized w"
  by (simp add: store_normalized_def)

lemma set_values_price:
  assumes "\<exists>q. dexp q = - 2 \<and> price r = to_float q"
    and "case iu_price u of Given d \<Rightarrow> dexp d = - 2 | _ \<Rightarrow> True"
  shows "\<exists>q. dexp q = - 2 \<and> price (set_values to_float u r) = to_float q"
  using assms by (auto simp: set_values_def split: field.splits)

lemma update_rows_Inr:
  assumes "update_rows ctx i u rows = Inr rows'"
  shows "rows' = map (\<lambda>r. if item_id r = i then set_values to_float u r else r) rows \<and>
         (filter (\<lambda>r. item_id r = i) rows = [] \<or>
          (iu_name u \<noteq> Null \<and> iu_price u \<noteq> Null \<and> iu_quantity u \<noteq> Null))"
  using assms not_null_violation_None [of ctx u]
  by (auto simp: update_rows_def split: list.splits option.splits)

lemma update_rows_normalized:
  assumes "update_rows ctx i u rows = Inr rows'" "prices_normalized rows"
    and "case iu_price u of Given d \<Rightarrow> dexp d = - 2 | _ \<Rightarrow> True"
  shows "prices_normalized rows'"
proof -
  from update_rows_Inr [OF assms(1)]
  have "rows' = map (\<lambda>r. if item_id r = i then set_values to_float u r else r) rows" by simp
  with assms(2) set_values_price [OF _ assms(3)] show ?thesis
    by (auto simp: prices_normalized_def list_all_iff)
qed

lemma db_execute_update_normalized:
  assumes "db_execute_update i u w = (r, w')" "store_normalized w"
    and "case iu_price u of Given d \<Rightarrow> dexp d = - 2 | _ \<Rightarrow> True"
  shows "store_normalized w'"
proof (cases "update_parameters_ok i u")
  case False
  with assms(1,2) show ?thesis by (auto simp: db_execute_update_def)
next
  case ok: True
  show ?thesis
  proof (cases "db_call Execute w")
    case (Pair f w1)
    from db_call_rows [OF Pair] assms(2) have n1: "store_normalized w1"
      by (simp add: store_normalized_def)
    show ?thesis
    proof (cases f)
      case (Some e)
      with ok Pair assms(1) n1 show ?thesis by (simp add: db_execute_update_def)
    next
      case None
      show ?thesis
      proof (cases "update_rows (error_context w1) i u (working w1)")
        case (Inl e)
        with ok None Pair assms(1) n1 show ?thesis by (simp add: db_execute_update_def)
      next
        case (Inr rows')
        from update_rows_normalized [OF Inr _ assms(3)] n1
        have "prices_normalized rows'" by (simp add: store_normalized_def)
        with ok Inr None Pair assms(1) n1 show ?thesis
          by (auto simp: db_execute_update_def store_normalized_def)
      qed
    qed
  qed
qed

lemma db_execute_select_normalized:
  assumes "db_execute_select j v = (x, v')" "store_normalized v"
  shows "store_normalized v'"
  using assms by (auto simp: store_normalized_def dest: db_execute_select_rows)

lemma update_item_body_normalized:
  assumes "update_item_body i u w = (r, w')" "store_normalized w"
    and "case iu_price u of Given d \<Rightarrow> dexp d = - 2 | _ \<Rightarrow> True"
  shows "store_normalized w'"
  using assms
  by (auto simp: update_item_body_def
      split: prod.splits sum.splits option.splits if_splits
      dest: db_execute_select_normalized db_execute_update_normalized db_commit_normalized)

lemma update_item_loop_normalized:
  assumes "update_item_loop as i u w = (r, w')" "store_normalized w"
    and "case iu_price u of Given d \<Rightarrow> dexp d = - 2 | _ \<Rightarrow> True"
  shows "store_normalized w'"
  using assms(1,2)
proof (induction as arbitrary: w)
  case Nil
  then show ?case by simp
next
  case (Cons attempt rest)
  obtain rb wb where b: "update_item_body i u w = (rb, wb)" by (cases "update_item_body i u w")
  from update_item_body_normalized [OF b Cons.prems(2) assms(3)] have nb: "store_normalized wb" .
  then have nr: "store_normalized (db_rollback wb)" by (rule db_rollback_normalized)
  show ?case
  proof (cases rb)
    case (Inr row)
    with b Cons.prems(1) nb show ?thesis by simp
  next
    case (Inl e)
    show ?thesis
    proof (cases "\<exists>m. e = OperationalError m \<and> str_contains ''locked'' (lower m) \<and>
                      attempt < max_retries - 1")
      case True
      then obtain m where "e = OperationalError m" "str_contains ''locked'' (lower m)"
        "attempt < max_retries - 1" by blast
      with Inl b Cons.prems(1)
      have "update_item_loop rest i u
              (asyncio_sleep (retry_delay * (attempt + 1)) (db_rollback wb)) = (r, w')"
        by simp
      from Cons.IH [OF this] nr show ?thesis by simp
    next
      case False
      with Inl b Cons.prems(1) have "w' = db_rollback wb"
        by (cases e) (auto split: if_splits)
      with nr show ?thesis by simp
    qed
  qed
qed

lemma get_db_normalized:
  assumes "get_db h w = (r, w')" "prices_normalized (committed w)"
    and "\<And>v x v'. h v = (x, v') \<Longrightarrow> store_normalized v \<Longrightarrow> store_normalized v'"
  shows "store_normalized w'"
proof -
  obtain x w1 where h: "h (w\<lparr>working := committed w\<rparr>) = (x, w1)"
    by (cases "h (w\<lparr>working := committed w\<rparr>)")
  have "store_normalized (w\<lparr>working := committed w\<rparr>)"
    using assms(2) by (simp add: store_normalized_def)
  from assms(3) [OF h this] have n1: "store_normalized w1" .
  obtain y w2 where c: "db_commit w1 = (y, w2)" by (cases "db_commit w1")
  from db_commit_normalized [OF c n1] have n2: "store_normalized w2" .
  show ?thesis using assms(1) h c n1 n2
    by (auto simp: get_db_def db_rollback_normalized split: sum.splits)
qed

lemma db_add_commit_normalized:
  assumes "db_add_commit item w = (r, w')" "store_normalized w" "dexp (ic_price item) = - 2"
  shows "store_normalized w'"
proof (cases "int64 (ic_quantity item)")
  case False
  with assms(1,2) show ?thesis by (auto simp: db_add_commit_def)
next
  case ok: True
  show ?thesis
  proof (cases "db_call Commit w")
    case (Pair f w1)
    from db_call_rows [OF Pair] assms(2) have "store_normalized w1"
      by (simp add: store_normalized_def)
    moreover have "\<exists>q. dexp q = - 2 \<and> to_float (ic_price item) = to_float q"
      using assms(3) by blast
    ultimately show ?thesis using ok Pair assms(1)
      by (cases f)
         (auto simp: db_add_commit_def store_normalized_def prices_normalized_def Let_def
            row_of_def)
  qed
qed

lemma create_item_normalized:
  assumes "create_item item w = (r, w')" "store_normalized w" "dexp (ic_price item) = - 2"
  shows "store_normalized w'"
proof -
  obtain rb wb where b: "create_item_body item w = (rb, wb)" by (cases "create_item_body item w")
  have nb: "store_normalized wb"
    using b assms(2,3)
    by (auto simp: create_item_body_def split: prod.splits sum.splits
        dest: db_add_commit_normalized db_execute_select_normalized)
  then have nr: "store_normalized (db_rollback wb)" by (rule db_rollback_normalized)
  show ?thesis
  proof (cases rb)
    case (Inr row)
    with b assms(1) nb show ?thesis by (simp add: create_item_def)
  next
    case (Inl e)
    with b assms(1) have "w' = db_rollback wb" by (cases e) (auto simp: create_item_def)
    with nr show ?thesis by simp
  qed
qed

lemma request_create_normalized:
  assumes "prices_normalized (committed w)"
  shows "prices_normalized (committed (snd (request_create_item body w)))"
proof (cases "validate_ItemCreate body")
  case (Inl e)
  with assms show ?thesis by (simp add: request_create_rejected db_rollback_def)
next
  case (Inr item)
  from validated_create_price [OF Inr] have p: "dexp (ic_price item) = - 2"
    by (auto dest: quantize_Inr)
  have r: "request_create_item body w = get_db (create_item item) w"
    using Inr by (simp add: request_create_item_def)
  obtain x w' where g: "get_db (create_item item) w = (x, w')"
    by (cases "get_db (create_item item) w")
  have n: "\<And>v x v'. create_item item v = (x, v') \<Longrightarrow> store_normalized v \<Longrightarrow> store_normalized v'"
    using create_item_normalized p by blast
  have "store_normalized w'"
    by (rule get_db_normalized [OF g assms]) (rule n)
  with g r show ?thesis by (simp add: store_normalized_def)
qed

lemma request_update_normalized:
  assumes "prices_normalized (committed w)"
  shows "prices_normalized (committed (snd (request_update_item i body w)))"
proof (cases "validate_ItemUpdate body")
  case (Inl e)
  with assms show ?thesis by (simp add: request_update_rejected db_rollback_def)
next
  case (Inr item)
  from validated_update_price [OF Inr]
  have p: "case iu_price item of Given d \<Rightarrow> dexp d = - 2 | _ \<Rightarrow> True"
    by (auto dest: quantize_Inr)
  have r: "request_update_item i body w = get_db (update_item i item) w"
    using Inr by (simp add: request_update_item_def)
  obtain x w' where g: "get_db (update_item i item) w = (x, w')"
    by (cases "get_db (update_item i item) w")
  have n: "\<And>v x v'. update_item i item v = (x, v') \<Longrightarrow> store_normalized v \<Longrightarrow> store_normalized v'"
    unfolding update_item_def using update_item_loop_normalized p by blast
  have "store_normalized w'"
    by (rule get_db_normalized [OF g assms]) (rule n)
  with g r show ?thesis by (simp add: store_normalized_def)
qed

subsection \<open>What a create or an update returns and stores\<close>

lemma fold_max_ge: "(a::int) \<le> fold max xs a \<and> (\<forall>x\<in>set xs. x \<le> fold max xs a)"
proof (induction xs arbitrary: a)
  case Nil
  then show ?case by simp
next
  case (Cons y ys)
  from Cons.IH [of "max y a"] show ?case by auto
qed

lemma next_id_fresh: "r \<in> set rows \<Longrightarrow> item_id r < next_id rows"
  using fold_max_ge [of 0 "map item_id rows"] by (auto simp: next_id_def)

lemma filter_next_id: "filter (\<lambda>r. item_id r = next_id rows) rows = []"
proof -
  have "item_id r \<noteq> next_id rows" if "r \<in> set rows" for r
    using next_id_fresh [OF that] by simp
  then show ?thesis by (simp add: filter_empty_conv)
qed

lemma create_item_Inr:
  assumes "create_item item w = (Inr row, w')"
  shows "create_item_body item w = (Inr row, w')"
  using assms by (auto simp: create_item_def split: prod.splits sum.splits exn.splits)

lemma create_item_body_Inr:
  assumes "create_item_body item w = (Inr row, w')"
  shows "row = \<lparr>item_id = next_id (working w), name = ic_name item,
                 description = ic_description item, price = ic_price item,
                 quantity = ic_quantity item\<rparr> \<and>
         working w' = working w @ [row_of row] \<and> committed w' = working w @ [row_of row]"
proof -
  let ?new = "\<lparr>item_id = next_id (working w), name = ic_name item,
                 description = ic_description item, price = ic_price item,
                 quantity = ic_quantity item\<rparr>"
  from assms obtain db_item wa rows created_item where
    add: "db_add_commit item w = (Inr db_item, wa)" and
    sel: "db_execute_select (item_id db_item) wa = (Inr rows, w')" and
    one: "scalar_one rows = Inr created_item" and row: "row = db_item"
    by (auto simp: create_item_body_def split: prod.splits sum.splits)
  from add have new: "db_item = ?new" and wa: "working wa = working w @ [row_of ?new]"
    "committed wa = working w @ [row_of ?new]"
    by (auto simp: db_add_commit_def Let_def split: prod.splits option.splits if_splits
        dest!: db_call_None)
  from db_execute_select_rows [OF sel] wa
  have "working w' = working w @ [row_of ?new]" "committed w' = working w @ [row_of ?new]"
    by simp_all
  with row new show ?thesis by simp
qed

lemma request_create_Inr:
  assumes "request_create_item body w = (Inr row, w')"
  shows "\<exists>d. p_price body = Given d \<and> \<not> dec_is_neg d \<and> quantize d = Inr (price row) \<and>
             committed w' = committed w @ [row_of row]"
proof -
  have "\<exists>item. validate_ItemCreate body = Inr item"
  proof (cases "validate_ItemCreate body")
    case (Inl e)
    from request_create_rejected [OF Inl, of w] assms show ?thesis by simp
  next
    case (Inr item)
    then show ?thesis by blast
  qed
  then obtain item where v: "validate_ItemCreate body = Inr item" by blast
  with assms have g: "get_db (create_item item) w = (Inr row, w')"
    by (simp add: request_create_item_def)
  from get_db_Inr [OF g] obtain w1 u where
    h: "create_item item (w\<lparr>working := committed w\<rparr>) = (Inr row, w1)" and
    c: "db_commit w1 = (Inr u, w')" by blast
  from create_item_body_Inr [OF create_item_Inr [OF h]]
  have row: "price row = ic_price item" and w1: "working w1 = committed w @ [row_of row]"
    by simp_all
  from db_commit_Inr [OF c] w1 have "committed w' = committed w @ [row_of row]" by simp
  with validated_create_price [OF v] row show ?thesis by auto
qed

lemma update_item_loop_Inr:
  assumes "update_item_loop as i u w = (Inr r, w')"
  shows "\<exists>v. update_item_body i u v = (Inr r, w')"
  using assms
proof (induction as arbitrary: w)
  case Nil
  then show ?case by simp
next
  case (Cons attempt rest)
  obtain rb wb where b: "update_item_body i u w = (rb, wb)" by (cases "update_item_body i u w")
  show ?case
  proof (cases rb)
    case (Inr row)
    with b Cons.prems show ?thesis by auto
  next
    case (Inl e)
    with b Cons.prems
    have "update_item_loop rest i u
            (asyncio_sleep (retry_delay * (attempt + 1)) (db_rollback wb)) = (Inr r, w')"
      by (cases e) (auto split: if_splits)
    from Cons.IH [OF this] show ?thesis .
  qed
qed

text \<open>
  A run of the \<^verbatim>\<open>try\<close> block of \<^verbatim>\<open>update_item\<close> that returns: there was one row
  with the id, no \<^verbatim>\<open>nullable=False\<close> column was given \<^verbatim>\<open>None\<close>, the object
  returned is the object loaded from that row with the update data written over,
  and the table has the update data written over that row.
\<close>

lemma update_item_body_Inr:
  assumes "update_item_body i u w = (Inr r, w')"
  shows "\<exists>existing. filter (\<lambda>r. item_id r = i) (working w) = [existing] \<and>
           r = set_values (\<lambda>d. d) u (load existing) \<and>
           iu_name u \<noteq> Null \<and> iu_price u \<noteq> Null \<and> iu_quantity u \<noteq> Null \<and>
           working w' =
             map (\<lambda>r. if item_id r = i then set_values to_float u r else r) (working w)"
proof -
  from assms obtain rows w1 existing_item x w2 y w3 rows' updated_item where
    sel: "db_execute_select i w = (Inr rows, w1)" and
    one: "scalar_one_or_none rows = Inr (Some existing_item)" and
    upd: "db_execute_update i u w1 = (Inr x, w2)" and
    com: "db_commit w2 = (Inr y, w3)" and
    sel': "db_execute_select i w3 = (Inr rows', w')" and
    one': "scalar_one rows' = Inr updated_item" and
    r: "r = set_values (\<lambda>d. d) u existing_item"
    by (auto simp: update_item_body_def split: prod.splits sum.splits option.splits if_splits)
  from one have rows: "rows = [existing_item]" by (simp add: scalar_one_or_none_Some)
  with db_execute_select_Inr [OF sel] db_execute_select_rows [OF sel]
  have m: "map load (filter (\<lambda>r. item_id r = i) (working w)) = [existing_item]"
    and w1: "working w1 = working w"
    by simp_all
  from m obtain existing where
    ex: "filter (\<lambda>r. item_id r = i) (working w) = [existing]" "existing_item = load existing"
    by (cases "filter (\<lambda>r. item_id r = i) (working w)") auto
  from upd obtain rows2 where u2: "update_rows (error_context w1) i u (working w1) = Inr rows2"
    and w2: "working w2 = rows2"
    by (auto simp: db_execute_update_def split: prod.splits option.splits sum.splits if_splits
        dest!: db_call_None)
  from update_rows_Inr [OF u2] ex w1
  have r2: "rows2 = map (\<lambda>r. if item_id r = i then set_values to_float u r else r) (working w)"
    and nn: "iu_name u \<noteq> Null \<and> iu_price u \<noteq> Null \<and> iu_quantity u \<noteq> Null" by simp_all
  from db_commit_Inr [OF com] w2 have "working w3 = rows2" by simp
  with db_execute_select_rows [OF sel'] have "working w' = rows2" by simp
  with r ex nn r2 show ?thesis by simp
qed

lemma request_update_Inr:
  assumes "request_update_item i body w = (Inr row, w')"
  shows "\<exists>d. p_price body = Given d \<and> \<not> dec_is_neg d \<and> quantize d = Inr (price row) \<and>
             filter (\<lambda>s. item_id s = i) (committed w') = [row_of row]"
proof -
  have "\<exists>item. validate_ItemUpdate body = Inr item"
  proof (cases "validate_ItemUpdate body")
    case (Inl e)
    from request_update_rejected [OF Inl, of i w] assms show ?thesis by simp
  next
    case (Inr item)
    then show ?thesis by blast
  qed
  then obtain item where v: "validate_ItemUpdate body = Inr item" by blast
  with assms have g: "get_db (update_item i item) w = (Inr row, w')"
    by (simp add: request_update_item_def)
  from get_db_Inr [OF g] obtain w0 w1 u where h: "update_item i item w0 = (Inr row, w1)"
    and c: "db_commit w1 = (Inr u, w')" by blast
  from h obtain v0 where "update_item_body i item v0 = (Inr row, w1)"
    unfolding update_item_def by (blast dest: update_item_loop_Inr)
  from update_item_body_Inr [OF this] obtain existing where
    ex: "filter (\<lambda>r. item_id r = i) (working v0) = [existing]" and
    r: "row = set_values (\<lambda>d. d) item (load existing)" and
    nn: "iu_price item \<noteq> Null" and
    w1: "working w1 =
           map (\<lambda>r. if item_id r = i then set_values to_float item r else r) (working v0)"
    by blast
  from nn validated_update_price [OF v] obtain d q where
    d: "p_price body = Given d" "\<not> dec_is_neg d" "quantize d = Inr q" "iu_price item = Given q"
    by blast
  have "filter (\<lambda>s. item_id s = i) (working w1) = [set_values to_float item existing]"
    unfolding w1 by (simp add: filter_updated ex)
  also have "set_values to_float item existing = row_of row"
    unfolding r using d(4)
    by (simp add: set_values_def row_of_def load_def split: field.splits)
  finally have "filter (\<lambda>s. item_id s = i) (committed w') = [row_of row]"
    using db_commit_Inr [OF c] by simp
  with d r show ?thesis by (simp add: set_values_def)
qed

text \<open>
  Claim C6. The item that a create request returns has the price of the body as
  \<^verbatim>\<open>quantize\<close> gives it: exponent \<open>-2\<close>, and as a number within half a cent of
  the price given (a tie goes to the even cent, \<open>round_half_even_tie\<close>); the row
  added to the committed table is the row of that item, its price the float of the
  quantized price. The item that an update request returns has the price of the
  body as \<^verbatim>\<open>quantize\<close> gives it, and the row with the id in the committed table
  is the row of that item. And whatever a create or an update request does and
  answers, a committed table in which every price is the float of a decimal with
  the exponent \<open>-2\<close> is still such a table afterwards.
\<close>

theorem price_normalized_before_persistence:
  "(request_create_item body w = (Inr row, w') \<longrightarrow>
      (\<exists>d. p_price body = Given d \<and> quantize d = Inr (price row) \<and>
           \<bar>dec_value (price row) - dec_value d\<bar> \<le> 1 / 200) \<and>
      dexp (price row) = - 2 \<and> committed w' = committed w @ [row_of row] \<and>
      price (row_of row) = to_float (price row)) \<and>
   (request_update_item i body w = (Inr row, w') \<longrightarrow>
      (\<exists>d. p_price body = Given d \<and> quantize d = Inr (price row) \<and>
           \<bar>dec_value (price row) - dec_value d\<bar> \<le> 1 / 200) \<and>
      dexp (price row) = - 2 \<and>
      filter (\<lambda>s. item_id s = i) (committed w') = [row_of row]) \<and>
   (prices_normalized (committed w) \<longrightarrow>
      prices_normalized (committed (snd (request_create_item body w))) \<and>
      prices_normalized (committed (snd (request_update_item i body w))))"
proof (intro conjI impI)
  assume c: "request_create_item body w = (Inr row, w')"
  from request_create_Inr [OF c] obtain d where
    d: "p_price body = Given d" "quantize d = Inr (price row)"
    and w': "committed w' = committed w @ [row_of row]" by blast
  from d quantize_value [OF d(2)]
  show "\<exists>d. p_price body = Given d \<and> quantize d = Inr (price row) \<and>
           \<bar>dec_value (price row) - dec_value d\<bar> \<le> 1 / 200" by blast
  from quantize_Inr [OF d(2)] show "dexp (price row) = - 2" by simp
  from w' show "committed w' = committed w @ [row_of row]" .
  show "price (row_of row) = to_float (price row)" by (simp add: row_of_def)
next
  assume u: "request_update_item i body w = (Inr row, w')"
  from request_update_Inr [OF u] obtain d where
    d: "p_price body = Given d" "quantize d = Inr (price row)"
    and w': "filter (\<lambda>s. item_id s = i) (committed w') = [row_of row]" by blast
  from d quantize_value [OF d(2)]
  show "\<exists>d. p_price body = Given d \<and> quantize d = Inr (price row) \<and>
           \<bar>dec_value (price row) - dec_value d\<bar> \<le> 1 / 200" by blast
  from quantize_Inr [OF d(2)] show "dexp (price row) = - 2" by simp
  from w' show "filter (\<lambda>s. item_id s = i) (committed w') = [row_of row]" .
next
  assume "prices_normalized (committed w)"
  then show "prices_normalized (committed (snd (request_create_item body w)))"
    by (rule request_create_normalized)
next
  assume "prices_normalized (committed w)"
  then show "prices_normalized (committed (snd (request_update_item i body w)))"
    by (rule request_update_normalized)
qed

lemma prices_normalized_store_of:
  assumes "list_all (\<lambda>r. dexp (price r) = - 2) items"
  shows "prices_normalized (committed (store_of items fs))"
  using assms by (auto simp: prices_normalized_def store_of_def row_of_def list_all_iff)

theorem price_normalized_before_persistence_witness:
  "request_create_item
     \<lparr>p_name = Given ''Widget'', p_description = Unset,
      p_price = Given \<lparr>dsign = False, dcoeff = 9999, dexp = - 3\<rparr>, p_quantity = Given 5\<rparr>
     (store_of [] []) =
     (Inr \<lparr>item_id = 1, name = ''Widget'', description = None, price = cents 1000,
           quantity = 5\<rparr>,
      (store_of [\<lparr>item_id = 1, name = ''Widget'', description = None, price = cents 1000,
                   quantity = 5\<rparr>] [])\<lparr>trace := [Commit, Execute, Commit]\<rparr>) \<and>
   quantize \<lparr>dsign = False, dcoeff = 9999, dexp = - 3\<rparr> = Inr (cents 1000) \<and>
   dexp (cents 1000) = - 2 \<and>
   fst (request_update_item 1
     \<lparr>p_name = Given ''Widget'', p_description = Unset,
      p_price = Given \<lparr>dsign = False, dcoeff = 12345, dexp = - 3\<rparr>, p_quantity = Given 3\<rparr>
     (store_of [widget] [])) =
     Inr (widget\<lparr>price := cents 1234, quantity := 3\<rparr>) \<and>
   committed (snd (request_update_item 1
     \<lparr>p_name = Given ''Widget'', p_description = Unset,
      p_price = Given \<lparr>dsign = False, dcoeff = 12345, dexp = - 3\<rparr>, p_quantity = Given 3\<rparr>
     (store_of [widget] []))) =
     [\<lparr>item_id = 1, name = ''Widget'', description = Some ''A widget'',
       price = 3473401212609495 / 281474976710656, quantity = 3\<rparr>] \<and>
   prices_normalized (committed (snd (request_update_item 1
     \<lparr>p_name = Given ''Widget'', p_description = Unset,
      p_price = Given \<lparr>dsign = False, dcoeff = 12345, dexp = - 3\<rparr>, p_quantity = Given 3\<rparr>
     (store_of [widget] []))))"
proof -
  let ?b = "\<lparr>p_name = Given ''Widget'', p_description = Unset,
             p_price = Given \<lparr>dsign = False, dcoeff = 9999, dexp = - 3\<rparr>, p_quantity = Given 5\<rparr>"
  let ?r = "\<lparr>item_id = 1, name = ''Widget'', description = None, price = cents 1000,
             quantity = 5\<rparr>"
  let ?w' = "(store_of [?r] [])\<lparr>trace := [Commit, Execute, Commit]\<rparr>"
  let ?b2 = "\<lparr>p_name = Given ''Widget'', p_description = Unset,
              p_price = Given \<lparr>dsign = False, dcoeff = 12345, dexp = - 3\<rparr>,
              p_quantity = Given 3\<rparr>"
  let ?r2 = "widget\<lparr>price := cents 1234, quantity := 3\<rparr>"
  let ?w2 = "(store_of [?r2] [])\<lparr>trace := [Execute, Execute, Commit, Execute, Commit]\<rparr>"
  have c: "request_create_item ?b (store_of [] []) = (Inr ?r, ?w')"
    by (simp add: request_create_item_def schema_defs decimal_defs handler_defs session_defs
        example_defs float_examples Let_def)
  have u: "request_update_item 1 ?b2 (store_of [widget] []) = (Inr ?r2, ?w2)"
    by (simp add: request_update_item_def schema_defs decimal_defs handler_defs session_defs
        example_defs float_examples upt_rec)
  have n: "prices_normalized (committed (store_of [widget] []))"
    by (rule prices_normalized_store_of) (simp add: widget_def cents_def)
  from price_normalized_before_persistence [where body = ?b and w = "store_of [] []"
      and row = ?r and w' = ?w'] c
  have 1: "\<exists>d. Given \<lparr>dsign = False, dcoeff = 9999, dexp = - 3\<rparr> = Given d \<and>
             quantize d = Inr (cents 1000)"
    and 2: "dexp (cents 1000) = - 2" by auto
  from price_normalized_before_persistence [where body = ?b2 and w = "store_of [widget] []"
      and i = 1 and row = ?r2 and w' = ?w2] n u
  have 3: "prices_normalized (committed (snd (request_update_item 1 ?b2 (store_of [widget] []))))"
    and 4: "filter (\<lambda>s. item_id s = 1) (committed ?w2) = [row_of ?r2]"
    by blast+
  have 5: "committed ?w2 = [\<lparr>item_id = 1, name = ''Widget'', description = Some ''A widget'',
       price = 3473401212609495 / 281474976710656, quantity = 3\<rparr>]"
    by (simp add: example_defs float_examples)
  from 1 2 3 5 c u show ?thesis by simp
qed

text \<open>
  A price of more digits than a float holds: the item returned has the price as
  \<^verbatim>\<open>quantize\<close> gave it, the row has the nearest float, and an item loaded from
  that row has the price 12345678901234568.00.
\<close>

lemma create_price_beyond_float:
  "fst (request_create_item
     \<lparr>p_name = Given ''Widget'', p_description = Unset,
      p_price = Given (cents 1234567890123456789), p_quantity = Given 5\<rparr> (store_of [] [])) =
     Inr \<lparr>item_id = 1, name = ''Widget'', description = None,
          price = cents 1234567890123456789, quantity = 5\<rparr> \<and>
   to_float (cents 1234567890123456789) = 12345678901234568 \<and>
   numeric_result 12345678901234568 = cents 1234567890123456800"
proof -
  have "fst (request_create_item
     \<lparr>p_name = Given ''Widget'', p_description = Unset,
      p_price = Given (cents 1234567890123456789), p_quantity = Given 5\<rparr> (store_of [] [])) =
     Inr \<lparr>item_id = 1, name = ''Widget'', description = None,
          price = cents 1234567890123456789, quantity = 5\<rparr>"
    by (simp add: request_create_item_def schema_defs decimal_defs handler_defs session_defs
        example_defs row_of_def load_def Let_def)
  moreover have "to_float (cents 1234567890123456789) = 12345678901234568"
    by (simp add: float_defs cents_def)
  moreover have "numeric_result 12345678901234568 = cents 1234567890123456800"
    by (simp add: float_defs cents_def)
  ultimately show ?thesis by simp
qed

subsection \<open>Listing\<close>

lemma str_contains_sublist: "str_contains needle s \<longleftrightarrow> sublist needle s"
  by (induction s) (simp_all add: sublist_Cons_right)

lemma like_percent: "like [CHR ''%''] s"
  by (induction s) simp_all

text \<open>A leading \<^verbatim>\<open>%\<close> lets the rest of the pattern start anywhere.\<close>

lemma like_percent_Cons: "like (CHR ''%'' # ps) s \<longleftrightarrow> (\<exists>t. suffix t s \<and> like ps t)"
proof (induction s)
  case Nil
  show ?case by (cases ps) auto
next
  case (Cons c cs)
  have "like (CHR ''%'' # ps) (c # cs) \<longleftrightarrow> like ps (c # cs) \<or> like (CHR ''%'' # ps) cs"
    by simp
  also have "\<dots> \<longleftrightarrow> like ps (c # cs) \<or> (\<exists>t. suffix t cs \<and> like ps t)"
    using Cons.IH by simp
  also have "\<dots> \<longleftrightarrow> (\<exists>t. suffix t (c # cs) \<and> like ps t)"
    by (auto simp: suffix_Cons)
  finally show ?case .
qed

text \<open>A pattern without wildcards before a closing \<^verbatim>\<open>%\<close> is a prefix, case ignored.\<close>

lemma like_plain_percent:
  assumes "CHR ''%'' \<notin> set ps" "CHR ''_'' \<notin> set ps"
  shows "like (ps @ [CHR ''%'']) s \<longleftrightarrow> prefix (lower ps) (lower s)"
  using assms
proof (induction ps arbitrary: s)
  case Nil
  then show ?case by (simp add: like_percent lower_def)
next
  case (Cons p ps)
  show ?case
  proof (cases s)
    case Nil
    with Cons.prems show ?thesis by (auto simp: lower_def)
  next
    case (Cons c cs)
    with Cons.prems Cons.IH [of cs] show ?thesis by (auto simp: lower_def)
  qed
qed

lemma like_contains:
  assumes "CHR ''%'' \<notin> set s" "CHR ''_'' \<notin> set s"
  shows "like (CHR ''%'' # s @ [CHR ''%'']) n \<longleftrightarrow> str_contains (lower s) (lower n)"
proof -
  have "like (CHR ''%'' # s @ [CHR ''%'']) n \<longleftrightarrow>
        (\<exists>t. suffix t n \<and> prefix (lower s) (lower t))"
    by (simp add: like_percent_Cons like_plain_percent [OF assms])
  also have "\<dots> \<longleftrightarrow> sublist (lower s) (lower n)"
  proof
    assume "\<exists>t. suffix t n \<and> prefix (lower s) (lower t)"
    then obtain t where "suffix t n" "prefix (lower s) (lower t)" by blast
    then have "suffix (lower t) (lower n)" "prefix (lower s) (lower t)"
      by (simp_all add: lower_def map_mono_suffix)
    then show "sublist (lower s) (lower n)" unfolding sublist_altdef' by blast
  next
    assume "sublist (lower s) (lower n)"
    then obtain ys where ys: "suffix ys (map lower_char n)" "prefix (lower s) ys"
      unfolding sublist_altdef' lower_def by blast
    from suffix_map_rightE [OF ys(1)] obtain t where "suffix t n" "ys = map lower_char t"
      by blast
    with ys(2) show "\<exists>t. suffix t n \<and> prefix (lower s) (lower t)"
      by (auto simp: lower_def)
  qed
  finally show ?thesis by (simp add: str_contains_sublist)
qed

lemma like_empty_contains: "like (CHR ''%'' # [] @ [CHR ''%'']) n"
  by (simp add: like_percent_Cons like_percent) blast

text \<open>
  What \<^verbatim>\<open>list_items\<close> returns when the call on the session goes through: the
  rows of the table, in its order, that meet all of \<^verbatim>\<open>price >= min_price\<close> when
  \<^verbatim>\<open>min_price\<close> is given, \<^verbatim>\<open>price <= max_price\<close> when \<^verbatim>\<open>max_price\<close> is given,
  both with the bound as a float, and \<^verbatim>\<open>name LIKE '%' || name_contains || '%'\<close>
  when \<^verbatim>\<open>name_contains\<close> is given; then \<open>skip\<close> rows are dropped and at most
  \<open>limit\<close> kept.
\<close>

lemma list_items_rows:
  assumes "next_call_ok w" "int64 (int skip)"
  shows "list_items skip limit min_price max_price name_contains w =
     (Inr (map load (take limit (drop skip (filter
        (\<lambda>r. (case min_price of None \<Rightarrow> True | Some m \<Rightarrow> to_float m \<le> price r) \<and>
              (case max_price of None \<Rightarrow> True | Some m \<Rightarrow> price r \<le> to_float m) \<and>
              (case name_contains of None \<Rightarrow> True
               | Some s \<Rightarrow> like (CHR ''%'' # s @ [CHR ''%'']) (name r)))
        (working w))))),
      w\<lparr>faults := tl (faults w), trace := trace w @ [Execute]\<rparr>)"
proof -
  have e: "like [CHR ''%'', CHR ''%''] n" for n
    using like_empty_contains [of n] by simp
  show ?thesis
    using assms(2)
    by (cases min_price; cases max_price; cases name_contains)
       (auto simp: list_items_def run_select_def db_call_next_ok [OF assms(1)] e Let_def)
qed

text \<open>
  Items priced 5.00, 10.00 and 15.00 with \<^verbatim>\<open>min_price=6\<close> and \<^verbatim>\<open>max_price=12\<close>:
  the item priced 10.00 and no other.
\<close>

lemma list_items_example:
  "fst (list_items 0 100 (Some \<lparr>dsign = False, dcoeff = 6, dexp = 0\<rparr>)
          (Some \<lparr>dsign = False, dcoeff = 12, dexp = 0\<rparr>) None (store_of three_items [])) =
     Inr [priced 2 ''Nut'' 1000]"
proof -
  have "to_float \<lparr>dsign = False, dcoeff = 6, dexp = 0\<rparr> = 6"
    and "to_float \<lparr>dsign = False, dcoeff = 12, dexp = 0\<rparr> = 12"
    by (simp_all add: float_defs)
  then show ?thesis
    by (simp add: list_items_def run_select_def db_call_def int64_def example_defs
        float_examples)
qed

text \<open>
  Claim C7. The claim: \<^verbatim>\<open>list_items\<close> returns exactly the items whose price is
  at least \<^verbatim>\<open>min_price\<close> and whose name holds the string \<^verbatim>\<open>name_contains\<close>. The
  code: with \<^verbatim>\<open>name_contains=_\<close> the item named \<^verbatim>\<open>Widget\<close> is returned, and its
  name does not hold the character \<^verbatim>\<open>_\<close>, which \<^verbatim>\<open>LIKE\<close> reads as a wildcard;
  and with \<^verbatim>\<open>min_price=10.000000000000000001\<close> the item priced 10.00 is
  returned, whose price is below that bound, because the bound reaches SQLite as
  the float 10.
\<close>

theorem list_items_wildcard_and_float_bound:
  "fst (list_items 0 100 None None (Some ''_'') (store_of [widget] [])) = Inr [widget] \<and>
   \<not> str_contains ''_'' (name widget) \<and>
   fst (list_items 0 100
          (Some \<lparr>dsign = False, dcoeff = 10000000000000000001, dexp = - 18\<rparr>) None None
          (store_of three_items [])) =
     Inr [priced 2 ''Nut'' 1000, priced 3 ''Gear'' 1500] \<and>
   \<not> dec_le \<lparr>dsign = False, dcoeff = 10000000000000000001, dexp = - 18\<rparr>
        (price (priced 2 ''Nut'' 1000))"
proof -
  have 1: "fst (list_items 0 100 None None (Some ''_'') (store_of [widget] [])) = Inr [widget]"
    by (simp add: list_items_def run_select_def db_call_def int64_def example_defs
        lower_char_def float_examples)
  have 2: "\<not> str_contains ''_'' (name widget)"
    by (simp add: widget_def)
  have f: "to_float \<lparr>dsign = False, dcoeff = 10000000000000000001, dexp = - 18\<rparr> = 10"
    by (simp add: float_defs)
  have 3: "fst (list_items 0 100
          (Some \<lparr>dsign = False, dcoeff = 10000000000000000001, dexp = - 18\<rparr>) None None
          (store_of three_items [])) =
     Inr [priced 2 ''Nut'' 1000, priced 3 ''Gear'' 1500]"
    by (simp add: list_items_def run_select_def db_call_def int64_def example_defs
        float_examples f)
  have 4: "\<not> dec_le \<lparr>dsign = False, dcoeff = 10000000000000000001, dexp = - 18\<rparr>
        (price (priced 2 ''Nut'' 1000))"
    by (simp add: priced_def decimal_defs)
  from 1 2 3 4 show ?thesis by simp
qed

subsection \<open>More on what the handlers do\<close>

text \<open>
  A create request with a negative price is a validation error, and a create
  request with a negative price, a negative quantity or an empty name ends before
  the handler is called: as a validation error, or as the \<^verbatim>\<open>InvalidOperation\<close>
  that \<^verbatim>\<open>quantize\<close> raises for a price of more than 26 digits before the point.
  Nothing is sent to the store.
\<close>

lemma quantize_Inl: "quantize d = Inl e \<Longrightarrow> e = InvalidOperation"
  by (auto simp: quantize_def Let_def split: if_splits)

lemma validate_ItemCreate_Inl:
  assumes "validate_ItemCreate body = Inl e"
  shows "e = InvalidOperation \<or> (\<exists>fs. e = ValidationError fs)"
proof -
  have n: "ItemBase_name (p_name body) \<noteq> Raised x" for x
    by (simp add: ItemBase_name_def split: field.splits)
  have d: "ItemBase_description (p_description body) \<noteq> Raised x" for x
    by (simp add: ItemBase_description_def split: field.splits)
  have q: "ItemBase_quantity (p_quantity body) \<noteq> Raised x" for x
    by (simp add: ItemBase_quantity_def split: field.splits)
  have c: "ItemBase_price (p_price body) = Raised x \<Longrightarrow> x = InvalidOperation" for x
    by (auto simp: ItemBase_price_def ItemBase_validate_price_def
        split: field.splits if_splits sum.splits dest: quantize_Inl)
  show ?thesis
    using assms n d q c
    by (cases "ItemBase_name (p_name body)"; cases "ItemBase_description (p_description body)";
        cases "ItemBase_price (p_price body)"; cases "ItemBase_quantity (p_quantity body)")
       (auto simp: validate_ItemCreate_def Let_def)
qed

lemma create_negative_price_rejected:
  assumes "p_price body = Given d" "dec_value d < 0"
  shows "\<exists>fs. request_create_item body w =
           (Inl (ValidationError fs), db_rollback (w\<lparr>working := committed w\<rparr>))"
proof -
  have n: "ItemBase_name (p_name body) \<noteq> Raised x" for x
    by (simp add: ItemBase_name_def split: field.splits)
  have ds: "ItemBase_description (p_description body) \<noteq> Raised x" for x
    by (simp add: ItemBase_description_def split: field.splits)
  have q: "ItemBase_quantity (p_quantity body) \<noteq> Raised x" for x
    by (simp add: ItemBase_quantity_def split: field.splits)
  have c: "ItemBase_price (p_price body) = Invalid"
    using assms by (simp add: ItemBase_price_def dec_is_neg_value)
  have "\<exists>fs. validate_ItemCreate body = Inl (ValidationError fs)"
    using n ds q c
    by (cases "ItemBase_name (p_name body)"; cases "ItemBase_description (p_description body)";
        cases "ItemBase_quantity (p_quantity body)")
       (auto simp: validate_ItemCreate_def Let_def)
  then show ?thesis by (auto simp: request_create_rejected)
qed

lemma create_invalid_never_reaches_store:
  assumes "p_name body = Given [] \<or> (\<exists>d. p_price body = Given d \<and> dec_value d < 0) \<or>
           (\<exists>q. p_quantity body = Given q \<and> q < 0)"
  shows "\<exists>e. request_create_item body w = (Inl e, db_rollback (w\<lparr>working := committed w\<rparr>)) \<and>
             (e = InvalidOperation \<or> (\<exists>fs. e = ValidationError fs)) \<and>
             store_calls (trace (snd (request_create_item body w))) = store_calls (trace w)"
proof (cases "validate_ItemCreate body")
  case (Inl e)
  with validate_ItemCreate_Inl [OF Inl] rejected_state [of w] show ?thesis
    by (simp add: request_create_rejected)
next
  case (Inr item)
  from validate_ItemCreate_Inr [OF Inr] assms have False
    by (auto simp: ItemBase_name_def ItemBase_price_def ItemBase_quantity_def dec_is_neg_value
        split: field.splits if_splits)
  then show ?thesis ..
qed

text \<open>
  The \<^verbatim>\<open>HTTPException\<close> that the \<^verbatim>\<open>try\<close> block of \<^verbatim>\<open>update_item\<close> raises for an id
  without a row is caught by the clause \<^verbatim>\<open>except Exception\<close> of the same \<^verbatim>\<open>try\<close>:
  the handler answers 500, where \<^verbatim>\<open>get_item\<close> and \<^verbatim>\<open>delete_item\<close>, which have a
  clause \<^verbatim>\<open>except HTTPException: raise\<close>, answer 404.
\<close>

lemma update_item_absent:
  assumes "int64 i" "next_call_ok w" "filter (\<lambda>r. item_id r = i) (working w) = []"
  shows "fst (update_item i item w) =
           Inl (HTTPException 500 ''Internal server error: 404: Item not found'')"
  using assms(1,3) unfolding update_item_def range_max_retries
  by (simp add: update_item_body_def db_execute_select_def db_call_next_ok [OF assms(2)]
      digit_char_def)

text \<open>
  The handler itself merges: the item that \<^verbatim>\<open>update_item\<close> returns is the item it
  found with the values of the update data written over, so an attribute that the
  update data do not hold keeps its value.
\<close>

lemma update_item_merges:
  assumes "update_item i item w = (Inr r, w')"
  shows "\<exists>existing. item_id existing = i \<and> r = set_values (\<lambda>d. d) item existing \<and>
           (iu_name item = Unset \<longrightarrow> name r = name existing) \<and>
           (iu_description item = Unset \<longrightarrow> description r = description existing) \<and>
           (iu_price item = Unset \<longrightarrow> price r = price existing) \<and>
           (iu_quantity item = Unset \<longrightarrow> quantity r = quantity existing)"
proof -
  from assms obtain v where "update_item_body i item v = (Inr r, w')"
    unfolding update_item_def by (blast dest: update_item_loop_Inr)
  from update_item_body_Inr [OF this] obtain existing where
    e: "filter (\<lambda>r. item_id r = i) (working v) = [existing]"
    and r: "r = set_values (\<lambda>d. d) item (load existing)"
    by blast
  from e have "existing \<in> set (filter (\<lambda>r. item_id r = i) (working v))" by simp
  then have "item_id (load existing) = i" by simp
  with r show ?thesis
    by (intro exI [of _ "load existing"]) (simp add: set_values_def)
qed

text \<open>
  What the \<^verbatim>\<open>except\<close> clauses of \<^verbatim>\<open>update_item\<close> make of the first run of the
  \<^verbatim>\<open>try\<close> block, when it raises something other than contention: there is no
  retry and no delay. An \<^verbatim>\<open>IntegrityError\<close> is answered with 400 (lemma
  \<open>update_item_integrity\<close>), an exception that is not from SQLAlchemy with 500
  \<^verbatim>\<open>Internal server error\<close>, and an \<^verbatim>\<open>OperationalError\<close> without \<^verbatim>\<open>locked\<close> in
  its text with the answer for a busy database.
\<close>

lemma update_item_other_exception:
  assumes "update_item_body i item w = (Inl (OtherException m), w')"
  shows "update_item i item w =
     (Inl (HTTPException 500 (''Internal server error: '' @ m)), db_rollback w')"
  using assms by (simp add: update_item_def range_max_retries)

lemma update_item_operational_not_locked:
  assumes "update_item_body i item w = (Inl (OperationalError m), w')"
    and "\<not> str_contains ''locked'' (lower m)"
  shows "update_item i item w =
     (Inl (HTTPException 500 ''Database is busy, please try again later''), db_rollback w')"
  using assms by (simp add: update_item_def range_max_retries)

text \<open>
  A quantity that SQLite cannot hold passes validation, which asks only for
  \<^verbatim>\<open>ge=0\<close>; the \<^verbatim>\<open>OverflowError\<close> of the driver ends in the clause
  \<^verbatim>\<open>except Exception\<close> of \<^verbatim>\<open>update_item\<close> and of \<^verbatim>\<open>create_item\<close>.
\<close>

lemma update_quantity_overflow:
  "fst (request_update_item 1
     \<lparr>p_name = Given ''Widget'', p_description = Unset, p_price = Given (cents 1000),
      p_quantity = Given (2 ^ 63)\<rparr> (store_of [widget] [])) =
     Inl (HTTPException 500
       ''Internal server error: Python int too large to convert to SQLite INTEGER'')"
  by (simp add: request_update_item_def schema_defs decimal_defs handler_defs session_defs
      example_defs float_examples upt_rec)

lemma create_quantity_overflow:
  "fst (request_create_item
     \<lparr>p_name = Given ''Widget'', p_description = Unset, p_price = Given (cents 1000),
      p_quantity = Given (2 ^ 63)\<rparr> (store_of [] [])) =
     Inl (HTTPException 500
       ''Internal server error: Python int too large to convert to SQLite INTEGER'')"
  by (simp add: request_create_item_def schema_defs decimal_defs handler_defs session_defs
      example_defs)


end
